theory Spec2Isabelle
  imports Complex_Main "HOL-Library.AList"
begin

section \<open>Python values\<close>

text \<open>
  The dictionaries the program builds (job log entries, processing results, WebSocket
  messages) hold Python values. A dictionary is kept as an association list in insertion
  order, which is the order Python preserves. Floats are modelled by \<^typ>\<open>real\<close>: the
  program only compares them and stores them, and comparison of finite floats is exact.
\<close>

datatype pyval =
    PNone
  | PBool bool
  | PInt int
  | PFloat real
  | PStr string
  | PList "pyval list"
  | PDict "(string \<times> pyval) list"

text \<open>Python truthiness, as used by \<^verbatim>\<open>if x:\<close> and \<^verbatim>\<open>if not x:\<close>.\<close>

fun truthy :: "pyval \<Rightarrow> bool" where
  "truthy PNone = False"
| "truthy (PBool b) = b"
| "truthy (PInt i) = (i \<noteq> 0)"
| "truthy (PFloat r) = (r \<noteq> 0)"
| "truthy (PStr s) = (s \<noteq> [])"
| "truthy (PList xs) = (xs \<noteq> [])"
| "truthy (PDict kvs) = (kvs \<noteq> [])"

text \<open>\<^verbatim>\<open>d.get(k, default)\<close> and \<^verbatim>\<open>d[k] = v\<close> on a dictionary.\<close>

definition dict_get :: "(string \<times> pyval) list \<Rightarrow> string \<Rightarrow> pyval \<Rightarrow> pyval" where
  "dict_get d k dflt = (case map_of d k of None \<Rightarrow> dflt | Some v \<Rightarrow> v)"

definition dict_set :: "string \<Rightarrow> pyval \<Rightarrow> (string \<times> pyval) list \<Rightarrow> (string \<times> pyval) list" where
  "dict_set k v d = AList.update k v d"

text \<open>\<^verbatim>\<open>d.update(other)\<close>: the entries of \<open>other\<close> are stored one by one, in order.\<close>

definition dict_update :: "(string \<times> pyval) list \<Rightarrow> (string \<times> pyval) list \<Rightarrow> (string \<times> pyval) list" where
  "dict_update d other = foldl (\<lambda>acc (k, v). dict_set k v acc) d other"

text \<open>An exception carries the text that \<^verbatim>\<open>str(e)\<close> returns.\<close>

datatype exn = Exn string

fun str_of_exn :: "exn \<Rightarrow> string" where
  "str_of_exn (Exn m) = m"


section \<open>Processing jobs and documents (app/models/document.py)\<close>

datatype JobStatus = QUEUED | RUNNING | COMPLETED | FAILED | CANCELLED | RETRY

datatype DocumentStatus =
  DOC_UPLOADING | DOC_UPLOADED | DOC_VALIDATING | DOC_PROCESSING | DOC_COMPLETED | DOC_FAILED
  | DOC_CANCELLED

datatype ProcessingStage =
  VALIDATION | EXTRACTION | NLP_ANALYSIS | ENTITY_EXTRACTION | SENTIMENT_ANALYSIS
  | CLASSIFICATION | KEY_PHRASE_EXTRACTION | DATASET_GENERATION | QUALITY_ASSESSMENT
  | STAGE_COMPLETED

text \<open>\<^verbatim>\<open>datetime.utcnow()\<close> is read from a clock the caller passes in.\<close>

type_synonym datetime = nat

record log_entry =
  le_timestamp :: datetime
  le_level :: string
  le_message :: string
  le_data :: pyval

text \<open>
  The columns of \<^verbatim>\<open>ProcessingJob\<close> that its methods read or write, with the
  priority, and the retry columns. \<open>None\<close> is SQL NULL.
\<close>

record processing_job =
  priority :: int
  status :: JobStatus
  current_stage :: "string option"
  progress_percentage :: real
  started_at :: "datetime option"
  completed_at :: "datetime option"
  worker_id :: "string option"
  output_s3_key :: "string option"
  error_message :: "string option"
  error_code :: "string option"
  retry_count :: int
  max_retries :: int
  logs :: "log_entry list option"

text \<open>A freshly inserted job: every column at its declared default.\<close>

definition new_job :: processing_job where
  "new_job = \<lparr> priority = 5, status = QUEUED, current_stage = None, progress_percentage = 0,
     started_at = None, completed_at = None, worker_id = None, output_s3_key = None,
     error_message = None, error_code = None, retry_count = 0, max_retries = 3,
     logs = None \<rparr>"

definition is_completed :: "processing_job \<Rightarrow> bool" where
  "is_completed j = (status j = COMPLETED)"

definition is_failed :: "processing_job \<Rightarrow> bool" where
  "is_failed j = (status j = FAILED)"

definition is_running :: "processing_job \<Rightarrow> bool" where
  "is_running j = (status j = RUNNING)"

definition can_retry :: "processing_job \<Rightarrow> bool" where
  "can_retry j = (is_failed j \<and> retry_count j < max_retries j)"

definition start_processing :: "processing_job \<Rightarrow> datetime \<Rightarrow> string option \<Rightarrow> processing_job" where
  "start_processing j now wid =
     j\<lparr> status := RUNNING, started_at := Some now, worker_id := wid \<rparr>"

text \<open>\<^verbatim>\<open>if output_s3_key:\<close> holds for a key that is neither None nor empty.\<close>

definition complete_processing :: "processing_job \<Rightarrow> datetime \<Rightarrow> string option \<Rightarrow> processing_job" where
  "complete_processing j now key =
     (let j1 = j\<lparr> status := COMPLETED, completed_at := Some now, progress_percentage := 100 \<rparr>
      in (case key of
            None \<Rightarrow> j1
          | Some k \<Rightarrow> if k \<noteq> [] then j1\<lparr> output_s3_key := Some k \<rparr> else j1))"

definition fail_processing ::
  "processing_job \<Rightarrow> datetime \<Rightarrow> string \<Rightarrow> string option \<Rightarrow> processing_job" where
  "fail_processing j now msg code =
     j\<lparr> status := FAILED, completed_at := Some now, error_message := Some msg,
        error_code := code \<rparr>"

text \<open>\<^verbatim>\<open>if not self.logs:\<close> holds for NULL and for the empty list.\<close>

definition add_log_entry ::
  "processing_job \<Rightarrow> datetime \<Rightarrow> string \<Rightarrow> string \<Rightarrow> pyval \<Rightarrow> processing_job" where
  "add_log_entry j now level msg data =
     (let old = (case logs j of None \<Rightarrow> [] | Some es \<Rightarrow> es);
          entry = \<lparr> le_timestamp = now, le_level = level, le_message = msg, le_data = data \<rparr>
      in j\<lparr> logs := Some (old @ [entry]) \<rparr>)"

text \<open>
  \<^verbatim>\<open>min(max(percentage, 0.0), 100.0)\<close>. On real numbers Python's \<^verbatim>\<open>max(a, b)\<close> and
  \<^verbatim>\<open>min(a, b)\<close> are the mathematical ones (a NaN, which is not a real number, would
  pass through both).
\<close>

definition update_progress :: "processing_job \<Rightarrow> string \<Rightarrow> real \<Rightarrow> processing_job" where
  "update_progress j stage percentage =
     j\<lparr> current_stage := Some stage, progress_percentage := min (max percentage 0) 100 \<rparr>"

record document =
  doc_status :: DocumentStatus
  doc_current_stage :: ProcessingStage
  doc_progress_percentage :: real
  processing_started_at :: "datetime option"
  processing_completed_at :: "datetime option"
  doc_error_message :: "string option"

definition document_update_progress :: "document \<Rightarrow> ProcessingStage \<Rightarrow> real \<Rightarrow> document" where
  "document_update_progress d stage percentage =
     d\<lparr> doc_current_stage := stage, doc_progress_percentage := min (max percentage 0) 100 \<rparr>"

definition mark_processing_started :: "document \<Rightarrow> datetime \<Rightarrow> document" where
  "mark_processing_started d now = d\<lparr> doc_status := DOC_PROCESSING, processing_started_at := Some now \<rparr>"

definition mark_processing_completed :: "document \<Rightarrow> datetime \<Rightarrow> document" where
  "mark_processing_completed d now =
     d\<lparr> doc_status := DOC_COMPLETED, processing_completed_at := Some now,
        doc_progress_percentage := 100 \<rparr>"

definition mark_processing_failed :: "document \<Rightarrow> datetime \<Rightarrow> string \<Rightarrow> document" where
  "mark_processing_failed d now msg =
     d\<lparr> doc_status := DOC_FAILED, doc_error_message := Some msg,
        processing_completed_at := Some now \<rparr>"

text \<open>
  The states a job can reach are those obtained from a stored job by any sequence of calls
  of the methods that write to it.
\<close>

datatype job_call =
    StartProcessing datetime "string option"
  | CompleteProcessing datetime "string option"
  | FailProcessing datetime string "string option"
  | AddLogEntry datetime string string pyval
  | UpdateProgress string real

fun call :: "processing_job \<Rightarrow> job_call \<Rightarrow> processing_job" where
  "call j (StartProcessing now wid) = start_processing j now wid"
| "call j (CompleteProcessing now key) = complete_processing j now key"
| "call j (FailProcessing now msg code) = fail_processing j now msg code"
| "call j (AddLogEntry now level msg data) = add_log_entry j now level msg data"
| "call j (UpdateProgress stage percentage) = update_progress j stage percentage"

definition calls :: "processing_job \<Rightarrow> job_call list \<Rightarrow> processing_job" where
  "calls j cs = foldl call j cs"


section \<open>WebSocket fan-out (app/api/websocket/manager.py)\<close>

text \<open>
  A WebSocket is an object of the web framework (Starlette), compared and hashed by
  identity; the model names it by a number. The world holds, for every socket, the state it
  reports, whether the handshake of a new socket fails (and then with which exception and in
  which state it leaves the socket), and whether \<^verbatim>\<open>send_text()\<close> raises. The
  coroutines are modelled as run one after the other, each from start to end.
\<close>

type_synonym ws = nat

datatype WebSocketState = CONNECTING | CONNECTED | DISCONNECTED | RESPONSE

record ws_world =
  application_state :: "ws \<Rightarrow> WebSocketState"
  accept_raises :: "ws \<Rightarrow> (exn \<times> WebSocketState) option"
  send_text_raises :: "ws \<Rightarrow> bool"

text \<open>
  \<^verbatim>\<open>json.dumps(data)\<close> writes the dictionary as text; the model sends the dictionary
  itself. A sent message is recorded with the socket that received it.
\<close>

type_synonym sent_log = "(ws \<times> pyval) list"

text \<open>
  \<^verbatim>\<open>websocket.accept()\<close>. The framework accepts a socket once: a new socket is
  CONNECTING, and accepting it makes it CONNECTED unless the handshake fails; on a socket in
  any other state \<^verbatim>\<open>accept()\<close> raises RuntimeError and changes nothing, because the
  message \<^verbatim>\<open>websocket.accept\<close> may only be sent to a socket that is CONNECTING.
\<close>

definition double_quoted :: "string \<Rightarrow> string" where
  "double_quoted s = CHR 0x22 # s @ [CHR 0x22]"

definition single_quoted :: "string \<Rightarrow> string" where
  "single_quoted s = CHR 0x27 # s @ [CHR 0x27]"

fun accept_error :: "WebSocketState \<Rightarrow> exn" where
  "accept_error CONNECTED =
     Exn (''Expected ASGI message '' @ double_quoted ''websocket.send'' @ '' or ''
          @ double_quoted ''websocket.close'' @ '', but got '' @ single_quoted ''websocket.accept'')"
| "accept_error RESPONSE =
     Exn (''Expected ASGI message '' @ double_quoted ''websocket.http.response.body''
          @ '', but got '' @ single_quoted ''websocket.accept'')"
| "accept_error st =
     Exn (''Cannot call '' @ double_quoted ''send'' @ '' once a close message has been sent.'')"

definition accept :: "ws_world \<Rightarrow> ws \<Rightarrow> exn option \<times> ws_world" where
  "accept w websocket =
     (if application_state w websocket = CONNECTING
      then (case accept_raises w websocket of
              Some (e, st) \<Rightarrow>
                (Some e, w\<lparr> application_state := (application_state w)(websocket := st) \<rparr>)
            | None \<Rightarrow>
                (None, w\<lparr> application_state := (application_state w)(websocket := CONNECTED) \<rparr>))
      else (Some (accept_error (application_state w websocket)), w))"

subsection \<open>ConnectionManager\<close>

record conn_manager =
  active_connections :: "ws list"
  metadata :: "ws \<Rightarrow> pyval option"

definition new_ConnectionManager :: conn_manager where
  "new_ConnectionManager = \<lparr> active_connections = [], metadata = (\<lambda>_. None) \<rparr>"

text \<open>\<^verbatim>\<open>connect\<close> returns the manager, or the exception, and the world after \<^verbatim>\<open>accept()\<close>.\<close>

definition connect ::
  "ws_world \<Rightarrow> conn_manager \<Rightarrow> ws \<Rightarrow> pyval \<Rightarrow> (exn + conn_manager) \<times> ws_world" where
  "connect w cm websocket md =
     (case accept w websocket of
        (Some e, w') \<Rightarrow> (Inl e, w')
      | (None, w') \<Rightarrow>
          (let cm1 = cm\<lparr> active_connections := active_connections cm @ [websocket] \<rparr>
           in (Inr (if truthy md then cm1\<lparr> metadata := (metadata cm1)(websocket := Some md) \<rparr>
                    else cm1), w')))"

text \<open>\<^verbatim>\<open>list.remove\<close> deletes the first occurrence only.\<close>

definition disconnect :: "conn_manager \<Rightarrow> ws \<Rightarrow> conn_manager" where
  "disconnect cm websocket =
     (let cm1 = (if websocket \<in> set (active_connections cm)
                 then cm\<lparr> active_connections := remove1 websocket (active_connections cm) \<rparr>
                 else cm)
      in if metadata cm1 websocket \<noteq> None
         then cm1\<lparr> metadata := (metadata cm1)(websocket := None) \<rparr>
         else cm1)"

text \<open>One turn of the loop of \<^verbatim>\<open>broadcast\<close>, on the messages sent and the list \<^verbatim>\<open>disconnected\<close>.\<close>

fun broadcast_step :: "ws_world \<Rightarrow> pyval \<Rightarrow> sent_log \<times> ws list \<Rightarrow> ws \<Rightarrow> sent_log \<times> ws list" where
  "broadcast_step w message (sent, disconnected) connection =
     (if application_state w connection = CONNECTED
      then (if send_text_raises w connection
            then (sent, disconnected @ [connection])
            else (sent @ [(connection, message)], disconnected))
      else (sent, disconnected @ [connection]))"

definition broadcast :: "ws_world \<Rightarrow> conn_manager \<Rightarrow> pyval \<Rightarrow> conn_manager \<times> sent_log" where
  "broadcast w cm message =
     (case foldl (broadcast_step w message) ([], []) (active_connections cm) of
        (sent, disconnected) \<Rightarrow> (foldl disconnect cm disconnected, sent))"

text \<open>A connection is healthy when it reports CONNECTED and sending to it does not raise.\<close>

definition healthy :: "ws_world \<Rightarrow> ws \<Rightarrow> bool" where
  "healthy w c = (application_state w c = CONNECTED \<and> \<not> send_text_raises w c)"

subsection \<open>WebSocketManager\<close>

record ws_manager =
  user_connections :: "string \<Rightarrow> conn_manager option"
  room_connections :: "string \<Rightarrow> conn_manager option"
  job_connections :: "string \<Rightarrow> conn_manager option"
  chat_connections :: "string \<Rightarrow> conn_manager option"
  connection_users :: "ws \<Rightarrow> string option"
  heartbeat_tasks :: "ws set"

definition new_WebSocketManager :: ws_manager where
  "new_WebSocketManager =
     \<lparr> user_connections = (\<lambda>_. None), room_connections = (\<lambda>_. None),
       job_connections = (\<lambda>_. None), chat_connections = (\<lambda>_. None),
       connection_users = (\<lambda>_. None), heartbeat_tasks = {} \<rparr>"

text \<open>The manager stored under a key, created empty when the key is new.\<close>

definition manager_at :: "(string \<Rightarrow> conn_manager option) \<Rightarrow> string \<Rightarrow> conn_manager" where
  "manager_at conns k = (case conns k of None \<Rightarrow> new_ConnectionManager | Some cm \<Rightarrow> cm)"

definition send_to_user :: "ws_world \<Rightarrow> ws_manager \<Rightarrow> string \<Rightarrow> pyval \<Rightarrow> ws_manager \<times> sent_log" where
  "send_to_user w m user_id data =
     (case user_connections m user_id of
        None \<Rightarrow> (m, [])
      | Some cm \<Rightarrow>
          (case broadcast w cm data of
             (cm', sent) \<Rightarrow> (m\<lparr> user_connections := (user_connections m)(user_id := Some cm') \<rparr>, sent)))"

text \<open>
  \<^verbatim>\<open>connect_user\<close>: an exception of \<^verbatim>\<open>accept()\<close> leaves the function after the
  user's manager was created. \<open>now\<close> is \<^verbatim>\<open>datetime.utcnow().isoformat()\<close>. Like
  the subscriptions below, it returns the manager and the world as the call leaves them.
\<close>

definition connect_user ::
  "ws_world \<Rightarrow> ws_manager \<Rightarrow> ws \<Rightarrow> string \<Rightarrow> pyval \<Rightarrow> string
     \<Rightarrow> ws_manager \<times> ws_world \<times> sent_log \<times> exn option" where
  "connect_user w m websocket user_id md now =
     (case connect w (manager_at (user_connections m) user_id) websocket md of
        (Inl e, w') \<Rightarrow>
          (m\<lparr> user_connections :=
                (user_connections m)(user_id := Some (manager_at (user_connections m) user_id)) \<rparr>,
           w', [], Some e)
      | (Inr cm, w') \<Rightarrow>
          (let m1 = m\<lparr> user_connections := (user_connections m)(user_id := Some cm),
                        connection_users := (connection_users m)(websocket := Some user_id),
                        heartbeat_tasks := insert websocket (heartbeat_tasks m) \<rparr>
           in (case send_to_user w' m1 user_id
                      (PDict [(''type'', PStr ''connection''), (''status'', PStr ''connected''),
                              (''timestamp'', PStr now)]) of
                 (m2, sent) \<Rightarrow> (m2, w', sent, None))))"

definition disconnect_user :: "ws_manager \<Rightarrow> ws \<Rightarrow> ws_manager" where
  "disconnect_user m websocket =
     (case connection_users m websocket of
        None \<Rightarrow> m
      | Some user_id \<Rightarrow>
          (let m1 = m\<lparr> heartbeat_tasks := heartbeat_tasks m - {websocket} \<rparr>;
               m2 = (case user_connections m1 user_id of
                       None \<Rightarrow> m1
                     | Some cm \<Rightarrow>
                         (let cm' = disconnect cm websocket
                          in if active_connections cm' = []
                             then m1\<lparr> user_connections := (user_connections m1)(user_id := None) \<rparr>
                             else m1\<lparr> user_connections := (user_connections m1)(user_id := Some cm') \<rparr>))
           in m2\<lparr> connection_users := (connection_users m2)(websocket := None) \<rparr>))"

definition subscribe_to_job ::
  "ws_world \<Rightarrow> ws_manager \<Rightarrow> ws \<Rightarrow> string \<Rightarrow> ws_manager \<times> ws_world \<times> exn option" where
  "subscribe_to_job w m websocket job_id =
     (case connect w (manager_at (job_connections m) job_id) websocket PNone of
        (Inl e, w') \<Rightarrow>
          (m\<lparr> job_connections :=
                (job_connections m)(job_id := Some (manager_at (job_connections m) job_id)) \<rparr>,
           w', Some e)
      | (Inr cm, w') \<Rightarrow>
          (m\<lparr> job_connections := (job_connections m)(job_id := Some cm) \<rparr>, w', None))"

definition send_job_update ::
  "ws_world \<Rightarrow> ws_manager \<Rightarrow> string \<Rightarrow> (string \<times> pyval) list \<Rightarrow> string \<Rightarrow> ws_manager \<times> sent_log" where
  "send_job_update w m job_id data now =
     (case job_connections m job_id of
        None \<Rightarrow> (m, [])
      | Some cm \<Rightarrow>
          (case broadcast w cm
                  (PDict [(''type'', PStr ''job_update''), (''job_id'', PStr job_id),
                          (''data'', PDict data), (''timestamp'', PStr now)]) of
             (cm', sent) \<Rightarrow> (m\<lparr> job_connections := (job_connections m)(job_id := Some cm') \<rparr>, sent)))"

definition subscribe_to_chat ::
  "ws_world \<Rightarrow> ws_manager \<Rightarrow> ws \<Rightarrow> string \<Rightarrow> ws_manager \<times> ws_world \<times> exn option" where
  "subscribe_to_chat w m websocket session_id =
     (case connect w (manager_at (chat_connections m) session_id) websocket PNone of
        (Inl e, w') \<Rightarrow>
          (m\<lparr> chat_connections :=
                (chat_connections m)(session_id := Some (manager_at (chat_connections m) session_id)) \<rparr>,
           w', Some e)
      | (Inr cm, w') \<Rightarrow>
          (m\<lparr> chat_connections := (chat_connections m)(session_id := Some cm) \<rparr>, w', None))"

definition join_room ::
  "ws_world \<Rightarrow> ws_manager \<Rightarrow> ws \<Rightarrow> string \<Rightarrow> ws_manager \<times> ws_world \<times> exn option" where
  "join_room w m websocket room_id =
     (case connect w (manager_at (room_connections m) room_id) websocket PNone of
        (Inl e, w') \<Rightarrow>
          (m\<lparr> room_connections :=
                (room_connections m)(room_id := Some (manager_at (room_connections m) room_id)) \<rparr>,
           w', Some e)
      | (Inr cm, w') \<Rightarrow>
          (m\<lparr> room_connections := (room_connections m)(room_id := Some cm) \<rparr>, w', None))"

definition leave_room :: "ws_manager \<Rightarrow> ws \<Rightarrow> string \<Rightarrow> ws_manager" where
  "leave_room m websocket room_id =
     (case room_connections m room_id of
        None \<Rightarrow> m
      | Some cm \<Rightarrow>
          (let cm' = disconnect cm websocket
           in if active_connections cm' = []
              then m\<lparr> room_connections := (room_connections m)(room_id := None) \<rparr>
              else m\<lparr> room_connections := (room_connections m)(room_id := Some cm') \<rparr>))"

text \<open>
  \<^verbatim>\<open>send_processing_update\<close>. \<open>message\<close> is the optional text (None by default);
  \<open>now\<close> is the time read when the user's message is built, \<open>now'\<close> the time read in
  \<^verbatim>\<open>send_job_update\<close>.
\<close>

definition update_data :: "string \<Rightarrow> string \<Rightarrow> real \<Rightarrow> pyval \<Rightarrow> string \<Rightarrow> (string \<times> pyval) list" where
  "update_data job_id stat progress message now =
     [(''type'', PStr ''processing_update''), (''job_id'', PStr job_id), (''status'', PStr stat),
      (''progress'', PFloat progress), (''message'', message), (''timestamp'', PStr now)]"

definition send_processing_update ::
  "ws_world \<Rightarrow> ws_manager \<Rightarrow> string \<Rightarrow> string \<Rightarrow> string \<Rightarrow> real \<Rightarrow> pyval \<Rightarrow> string \<Rightarrow> string
     \<Rightarrow> ws_manager \<times> sent_log" where
  "send_processing_update w m user_id job_id stat progress message now now' =
     (case send_to_user w m user_id (PDict (update_data job_id stat progress message now)) of
        (m1, sent1) \<Rightarrow>
          (case send_job_update w m1 job_id
                  [(''status'', PStr stat), (''progress'', PFloat progress), (''message'', message)]
                  now' of
             (m2, sent2) \<Rightarrow> (m2, sent1 @ sent2)))"


section \<open>Text processing (app/services/processing/text_processor.py)\<close>

text \<open>
  A text is modelled as the list of its characters. The tokenizers, the lemmatizer, the
  regular-expression engine and the analysis back ends belong to libraries (re, NLTK, spaCy,
  textstat, scikit-learn); they are parameters of the model, and so is what Python's own
  \<^verbatim>\<open>str\<close> methods read from the Unicode tables: which characters are white space,
  which are alphabetic, and the lower-case form of a text. A function of a library that can
  raise returns a sum, with the exception on the left.

  Five methods of \<^verbatim>\<open>TextProcessor\<close> are analyzers. The model keeps their control flow
  (what they check, what they catch, what they return when something is caught) and takes
  their computations as parameters: the metrics and the entities collected, the keywords,
  the scores of the categories, and the ranking of the sentences.
\<close>

datatype regex = WHITESPACE_RUN | SPECIAL_CHARACTER | URL | EMAIL_ADDRESS

record text_library =
  unicode_isspace :: "char \<Rightarrow> bool"
  unicode_isalpha :: "char \<Rightarrow> bool"
  unicode_lower :: "string \<Rightarrow> string"
  re_sub :: "regex \<Rightarrow> string \<Rightarrow> string \<Rightarrow> string"
  sent_tokenize :: "string \<Rightarrow> exn + string list"
  word_tokenize :: "string \<Rightarrow> exn + string list"
  lemmatize :: "string \<Rightarrow> exn + string"
  stop_words :: "string list"
  readability_metrics :: "string \<Rightarrow> (string \<times> pyval) list"
  entities_found :: "string \<Rightarrow> pyval list"
  keywords_body :: "string \<Rightarrow> pyval \<Rightarrow> exn + pyval list"
  classification_of :: "string \<Rightarrow> pyval list \<Rightarrow> pyval"
  summary_ranking :: "string \<Rightarrow> string list \<Rightarrow> pyval \<Rightarrow> exn + string"

text \<open>
  \<^verbatim>\<open>str.strip()\<close> removes the white-space characters at both ends;
  \<^verbatim>\<open>str.isalpha()\<close> holds for a text that is not empty and whose characters are all
  alphabetic; \<^verbatim>\<open>str.lower()\<close> of the empty text is the empty text, and of any other
  text what the tables give (the lower-case form of a character can depend on its
  neighbours and can be longer than the character).
\<close>

definition py_strip :: "text_library \<Rightarrow> string \<Rightarrow> string" where
  "py_strip lib s =
     rev (dropWhile (unicode_isspace lib) (rev (dropWhile (unicode_isspace lib) s)))"

definition py_lower :: "text_library \<Rightarrow> string \<Rightarrow> string" where
  "py_lower lib s = (if s = [] then [] else unicode_lower lib s)"

definition py_isalpha :: "text_library \<Rightarrow> string \<Rightarrow> bool" where
  "py_isalpha lib s = (s \<noteq> [] \<and> list_all (unicode_isalpha lib) s)"

text \<open>
  \<^verbatim>\<open>clean_text\<close>: four substitutions, the first replacing each run of white space by one
  space and followed by \<^verbatim>\<open>strip()\<close>, the others deleting what they match.
\<close>

definition clean_text :: "text_library \<Rightarrow> string \<Rightarrow> string" where
  "clean_text lib text =
     (let text1 = py_strip lib (re_sub lib WHITESPACE_RUN '' '' text);
          text2 = re_sub lib SPECIAL_CHARACTER [] text1;
          text3 = re_sub lib URL [] text2;
          text4 = re_sub lib EMAIL_ADDRESS [] text3
      in text4)"

fun lemmatize_all :: "text_library \<Rightarrow> string list \<Rightarrow> exn + string list" where
  "lemmatize_all lib [] = Inr []"
| "lemmatize_all lib (token # tokens) =
     (case lemmatize lib token of
        Inl e \<Rightarrow> Inl e
      | Inr l \<Rightarrow> (case lemmatize_all lib tokens of Inl e \<Rightarrow> Inl e | Inr ls \<Rightarrow> Inr (l # ls)))"

definition tokenize_text :: "text_library \<Rightarrow> string \<Rightarrow> exn + string list" where
  "tokenize_text lib text =
     (case word_tokenize lib (py_lower lib text) of
        Inl e \<Rightarrow> Inl e
      | Inr tokens \<Rightarrow>
          lemmatize_all lib
            (filter (\<lambda>token. py_isalpha lib token \<and> token \<notin> set (stop_words lib)) tokens))"

definition extract_sentences :: "text_library \<Rightarrow> string \<Rightarrow> exn + string list" where
  "extract_sentences lib text =
     (case sent_tokenize lib text of
        Inl e \<Rightarrow> Inl e
      | Inr sentences \<Rightarrow>
          Inr (map (py_strip lib)
                 (filter (\<lambda>sentence. py_strip lib sentence \<noteq> []) sentences)))"

text \<open>
  \<^verbatim>\<open>calculate_readability\<close> and \<^verbatim>\<open>extract_entities\<close> return the dictionary and the list
  their body has filled when it ends, by its last statement or by an exception, which the
  handler logs. \<^verbatim>\<open>extract_keywords\<close> returns the empty list when its body raises.
\<close>

definition calculate_readability :: "text_library \<Rightarrow> string \<Rightarrow> pyval" where
  "calculate_readability lib text = PDict (readability_metrics lib text)"

definition extract_entities :: "text_library \<Rightarrow> string \<Rightarrow> pyval" where
  "extract_entities lib text = PList (entities_found lib text)"

definition extract_keywords :: "text_library \<Rightarrow> string \<Rightarrow> pyval \<Rightarrow> pyval" where
  "extract_keywords lib text num_keywords =
     (case keywords_body lib text num_keywords of
        Inl e \<Rightarrow> PList []
      | Inr keywords \<Rightarrow> PList keywords)"

fun py_type_name :: "pyval \<Rightarrow> string" where
  "py_type_name PNone = ''NoneType''"
| "py_type_name (PBool b) = ''bool''"
| "py_type_name (PInt i) = ''int''"
| "py_type_name (PFloat r) = ''float''"
| "py_type_name (PStr s) = ''str''"
| "py_type_name (PList xs) = ''list''"
| "py_type_name (PDict kvs) = ''dict''"

text \<open>
  \<^verbatim>\<open>classify_text\<close>. Without a list of categories (None, or anything else that is
  false) the fifteen default categories are scored. Otherwise the loop
  \<^verbatim>\<open>for category in categories\<close> raises TypeError when \<^verbatim>\<open>categories\<close> cannot be
  iterated, and the look-up \<^verbatim>\<open>category in category_keywords\<close> raises TypeError at a
  category that cannot be hashed. The method has no handler.
\<close>

definition default_categories :: "pyval list" where
  "default_categories = map PStr
     [''business'', ''technology'', ''science'', ''health'', ''education'', ''entertainment'',
      ''sports'', ''politics'', ''travel'', ''food'', ''finance'', ''legal'', ''medical'',
      ''academic'', ''news'']"

fun py_iter :: "pyval \<Rightarrow> exn + pyval list" where
  "py_iter (PList xs) = Inr xs"
| "py_iter (PStr s) = Inr (map (\<lambda>c. PStr [c]) s)"
| "py_iter (PDict kvs) = Inr (map (\<lambda>kv. PStr (fst kv)) kvs)"
| "py_iter v = Inl (Exn (single_quoted (py_type_name v) @ '' object is not iterable''))"

fun hashable :: "pyval \<Rightarrow> bool" where
  "hashable (PList xs) = False"
| "hashable (PDict kvs) = False"
| "hashable v = True"

definition classify_text :: "text_library \<Rightarrow> string \<Rightarrow> pyval \<Rightarrow> exn + pyval" where
  "classify_text lib text categories =
     (if \<not> truthy categories then Inr (classification_of lib text default_categories)
      else (case py_iter categories of
              Inl e \<Rightarrow> Inl e
            | Inr cats \<Rightarrow>
                (case filter (\<lambda>category. \<not> hashable category) cats of
                   [] \<Rightarrow> Inr (classification_of lib text cats)
                 | category # _ \<Rightarrow>
                     Inl (Exn (''unhashable type: '' @ single_quoted (py_type_name category))))))"

text \<open>
  \<^verbatim>\<open>generate_summary\<close>. \<^verbatim>\<open>max_length\<close> is whatever the options hold. The body
  returns the empty text when there is no sentence and the text itself when the sentences,
  joined by spaces, are not longer than \<^verbatim>\<open>max_length\<close>; otherwise it ranks the sentences.
  A comparison of a length with \<^verbatim>\<open>max_length\<close> raises TypeError unless
  \<^verbatim>\<open>max_length\<close> is a number. The handler evaluates
  \<^verbatim>\<open>text[:max_length] + "..." if len(text) > max_length else text\<close>, in which the
  comparison can raise again and the slice raises TypeError on a float.
\<close>

fun join_spaces :: "string list \<Rightarrow> string" where
  "join_spaces [] = []"
| "join_spaces [s] = s"
| "join_spaces (s # t # ss) = s @ '' '' @ join_spaces (t # ss)"

definition not_supported :: "string \<Rightarrow> pyval \<Rightarrow> exn" where
  "not_supported operator v =
     Exn (single_quoted operator @ '' not supported between instances of '' @ single_quoted ''int''
          @ '' and '' @ single_quoted (py_type_name v))"

fun int_le :: "int \<Rightarrow> pyval \<Rightarrow> exn + bool" where
  "int_le n (PInt m) = Inr (n \<le> m)"
| "int_le n (PBool b) = Inr (n \<le> (if b then 1 else 0))"
| "int_le n (PFloat r) = Inr (real_of_int n \<le> r)"
| "int_le n v = Inl (not_supported ''<='' v)"

definition summary_try :: "text_library \<Rightarrow> string \<Rightarrow> pyval \<Rightarrow> exn + string" where
  "summary_try lib text max_length =
     (case extract_sentences lib text of
        Inl e \<Rightarrow> Inl e
      | Inr sentences \<Rightarrow>
          if sentences = [] then Inr []
          else (case int_le (int (length (join_spaces sentences))) max_length of
                  Inl e \<Rightarrow> Inl e
                | Inr True \<Rightarrow> Inr text
                | Inr False \<Rightarrow> summary_ranking lib text sentences max_length))"

definition slice_to :: "string \<Rightarrow> int \<Rightarrow> string" where
  "slice_to text n = (if 0 \<le> n then take (nat n) text else take (nat (int (length text) + n)) text)"

definition truncate_at :: "string \<Rightarrow> int \<Rightarrow> pyval" where
  "truncate_at text n =
     (if n < int (length text) then PStr (slice_to text n @ ''...'') else PStr text)"

fun summary_fallback :: "string \<Rightarrow> pyval \<Rightarrow> exn + pyval" where
  "summary_fallback text (PInt n) = Inr (truncate_at text n)"
| "summary_fallback text (PBool b) = Inr (truncate_at text (if b then 1 else 0))"
| "summary_fallback text (PFloat r) =
     (if r < real (length text)
      then Inl (Exn ''slice indices must be integers or None or have an __index__ method'')
      else Inr (PStr text))"
| "summary_fallback text v = Inl (not_supported ''>'' v)"

definition generate_summary :: "text_library \<Rightarrow> string \<Rightarrow> pyval \<Rightarrow> exn + pyval" where
  "generate_summary lib text max_length =
     (case summary_try lib text max_length of
        Inr summary \<Rightarrow> Inr (PStr summary)
      | Inl e \<Rightarrow> summary_fallback text max_length)"

text \<open>
  \<^verbatim>\<open>process_text\<close>. The statements of its \<^verbatim>\<open>try\<close> block are steps on the dictionary
  \<^verbatim>\<open>results\<close>: a step returns the dictionary as it has left it and the exception it has
  raised, if any. After an exception no further step runs.
\<close>

type_synonym results = "(string \<times> pyval) list"
type_synonym outcome = "results \<times> exn option"

definition and_then :: "outcome \<Rightarrow> (results \<Rightarrow> outcome) \<Rightarrow> outcome" where
  "and_then out step = (case out of (r, None) \<Rightarrow> step r | (r, Some e) \<Rightarrow> (r, Some e))"

definition step_clean :: "string \<Rightarrow> results \<Rightarrow> outcome" where
  "step_clean cleaned_text r =
     (dict_set ''cleaned_length'' (PInt (int (length cleaned_text)))
        (dict_set ''cleaned_text'' (PStr cleaned_text) r), None)"

definition step_metrics :: "text_library \<Rightarrow> string \<Rightarrow> results \<Rightarrow> outcome" where
  "step_metrics lib cleaned_text r =
     (case extract_sentences lib cleaned_text of
        Inl e \<Rightarrow> (r, Some e)
      | Inr sentences \<Rightarrow>
          (case tokenize_text lib cleaned_text of
             Inl e \<Rightarrow> (r, Some e)
           | Inr tokens \<Rightarrow>
               (dict_update r
                  [(''sentence_count'', PInt (int (length sentences))),
                   (''word_count'', PInt (int (length tokens))),
                   (''unique_words'', PInt (int (length (remdups tokens)))),
                   (''avg_sentence_length'',
                      if sentences \<noteq> []
                      then PFloat (real (length tokens) / real (length sentences))
                      else PInt 0)],
                None)))"

definition step_readability :: "text_library \<Rightarrow> string \<Rightarrow> results \<Rightarrow> results \<Rightarrow> outcome" where
  "step_readability lib cleaned_text options r =
     (if truthy (dict_get options ''calculate_readability'' (PBool True))
      then (dict_set ''readability'' (calculate_readability lib cleaned_text) r, None)
      else (r, None))"

definition step_entities :: "text_library \<Rightarrow> string \<Rightarrow> results \<Rightarrow> results \<Rightarrow> outcome" where
  "step_entities lib cleaned_text options r =
     (if truthy (dict_get options ''extract_entities'' (PBool True))
      then (dict_set ''entities'' (extract_entities lib cleaned_text) r, None)
      else (r, None))"

definition step_keywords :: "text_library \<Rightarrow> string \<Rightarrow> results \<Rightarrow> results \<Rightarrow> outcome" where
  "step_keywords lib cleaned_text options r =
     (if truthy (dict_get options ''extract_keywords'' (PBool True))
      then (dict_set ''keywords''
              (extract_keywords lib cleaned_text (dict_get options ''num_keywords'' (PInt 10))) r,
            None)
      else (r, None))"

definition step_classification :: "text_library \<Rightarrow> string \<Rightarrow> results \<Rightarrow> results \<Rightarrow> outcome" where
  "step_classification lib cleaned_text options r =
     (if truthy (dict_get options ''classify_text'' (PBool True))
      then (case classify_text lib cleaned_text (dict_get options ''categories'' PNone) of
              Inl e \<Rightarrow> (r, Some e)
            | Inr classification \<Rightarrow> (dict_set ''classification'' classification r, None))
      else (r, None))"

definition step_summary :: "text_library \<Rightarrow> string \<Rightarrow> results \<Rightarrow> results \<Rightarrow> outcome" where
  "step_summary lib cleaned_text options r =
     (if truthy (dict_get options ''generate_summary'' (PBool True))
      then (case generate_summary lib cleaned_text
                   (dict_get options ''summary_max_length'' (PInt 500)) of
              Inl e \<Rightarrow> (r, Some e)
            | Inr summary \<Rightarrow> (dict_set ''summary'' summary r, None))
      else (r, None))"

definition step_success :: "results \<Rightarrow> outcome" where
  "step_success r = (dict_set ''success'' (PBool True) r, None)"

definition try_block :: "text_library \<Rightarrow> string \<Rightarrow> results \<Rightarrow> results \<Rightarrow> outcome" where
  "try_block lib text options r =
     (let cleaned_text = clean_text lib text
      in and_then (and_then (and_then (and_then (and_then (and_then (and_then
           (step_clean cleaned_text r)
           (step_metrics lib cleaned_text))
           (step_readability lib cleaned_text options))
           (step_entities lib cleaned_text options))
           (step_keywords lib cleaned_text options))
           (step_classification lib cleaned_text options))
           (step_summary lib cleaned_text options))
           step_success)"

text \<open>
  \<open>options\<close> is the dictionary of options (an absent or empty one is \<open>[]\<close>) and \<open>now\<close> is
  \<^verbatim>\<open>datetime.utcnow().isoformat()\<close>. The function returns in every case: the handler of
  the \<^verbatim>\<open>try\<close> block catches every exception and stores it in the dictionary.
\<close>

definition process_text :: "text_library \<Rightarrow> string \<Rightarrow> results \<Rightarrow> string \<Rightarrow> results" where
  "process_text lib text options now =
     (case try_block lib text options
             [(''processed_at'', PStr now), (''original_length'', PInt (int (length text)))] of
        (r, None) \<Rightarrow> r
      | (r, Some e) \<Rightarrow>
          dict_update r [(''success'', PBool False), (''error'', PStr (str_of_exn e))])"

text \<open>What a caller reads in the dictionary returned: a success, or a failure with its message.\<close>

definition succeeded :: "results \<Rightarrow> bool" where
  "succeeded out = (map_of out ''success'' = Some (PBool True) \<and> map_of out ''error'' = None)"

definition failed_with :: "results \<Rightarrow> exn \<Rightarrow> bool" where
  "failed_with out e =
     (map_of out ''success'' = Some (PBool False)
      \<and> map_of out ''error'' = Some (PStr (str_of_exn e)))"


section \<open>Concrete worlds and managers\<close>

text \<open>
  The inputs at which the properties below are evaluated. In the world \<open>new_sockets\<close> no
  socket has been accepted yet, and every handshake and every send succeeds. In the world
  \<open>socket_2_fails\<close> the sockets are connected and sending to socket 2 raises. The managers
  are built from the empty one by calls of its methods, each in the world the call before
  has left.
\<close>

definition new_sockets :: ws_world where
  "new_sockets = \<lparr> application_state = (\<lambda>_. CONNECTING), accept_raises = (\<lambda>_. None),
                   send_text_raises = (\<lambda>_. False) \<rparr>"

definition socket_2_fails :: ws_world where
  "socket_2_fails = \<lparr> application_state = (\<lambda>_. CONNECTED), accept_raises = (\<lambda>_. None),
                      send_text_raises = (\<lambda>c. c = 2) \<rparr>"

definition three_sockets :: conn_manager where
  "three_sockets = \<lparr> active_connections = [1, 2, 3], metadata = (\<lambda>_. None) \<rparr>"

text \<open>Socket 1 becomes the connection of user alice; then socket 2 subscribes to job-1.\<close>

definition alice_connects :: "ws_manager \<times> ws_world \<times> sent_log \<times> exn option" where
  "alice_connects = connect_user new_sockets new_WebSocketManager 1 ''alice'' PNone ''t0''"

definition watcher_subscribes :: "ws_manager \<times> ws_world \<times> exn option" where
  "watcher_subscribes =
     subscribe_to_job (fst (snd alice_connects)) (fst alice_connects) 2 ''job-1''"

definition two_watchers :: ws_manager where
  "two_watchers = fst watcher_subscribes"

definition two_watchers_world :: ws_world where
  "two_watchers_world = fst (snd watcher_subscribes)"

text \<open>Socket 7 becomes the connection of user alice.\<close>

definition alice_alone :: ws_manager where
  "alice_alone = fst (connect_user new_sockets new_WebSocketManager 7 ''alice'' PNone ''t0'')"

text \<open>Socket 7 subscribes to job-1, socket 8 to chat-1 and socket 9 to room-1.\<close>

definition job_watcher :: "ws_manager \<times> ws_world \<times> exn option" where
  "job_watcher = subscribe_to_job new_sockets new_WebSocketManager 7 ''job-1''"

definition chat_watcher :: "ws_manager \<times> ws_world \<times> exn option" where
  "chat_watcher = subscribe_to_chat (fst (snd job_watcher)) (fst job_watcher) 8 ''chat-1''"

definition room_watcher :: "ws_manager \<times> ws_world \<times> exn option" where
  "room_watcher = join_room (fst (snd chat_watcher)) (fst chat_watcher) 9 ''room-1''"

definition three_watchers :: ws_manager where
  "three_watchers = fst room_watcher"



text \<open>
  The tables of the ASCII characters: the white-space characters are the space, the
  characters 9 to 13 and the characters 28 to 31, the alphabetic ones are the letters, and
  the lower-case form of a text changes each capital letter alone.
\<close>

definition ascii_isspace :: "char \<Rightarrow> bool" where
  "ascii_isspace c = (let n = (of_char c :: nat) in (9 \<le> n \<and> n \<le> 13) \<or> (28 \<le> n \<and> n \<le> 32))"

definition ascii_isalpha :: "char \<Rightarrow> bool" where
  "ascii_isalpha c = (let n = (of_char c :: nat) in (65 \<le> n \<and> n \<le> 90) \<or> (97 \<le> n \<and> n \<le> 122))"

definition ascii_lower :: "string \<Rightarrow> string" where
  "ascii_lower s =
     map (\<lambda>c. let n = (of_char c :: nat) in if 65 \<le> n \<and> n \<le> 90 then char_of (n + 32) else c) s"

text \<open>
  The libraries as they answer on the empty text, and on a text of ASCII letters as far as
  the tables and the substitutions go: nothing is substituted, the tokenizers find no
  sentence and no token, the readability metrics are the four counts, all zero, no entity and
  no keyword is found, and every category scores zero, which makes the first one the primary
  category.
\<close>

definition on_empty_text :: text_library where
  "on_empty_text =
     \<lparr> unicode_isspace = ascii_isspace,
       unicode_isalpha = ascii_isalpha,
       unicode_lower = ascii_lower,
       re_sub = (\<lambda>pattern replacement text. text),
       sent_tokenize = (\<lambda>text. Inr []),
       word_tokenize = (\<lambda>text. Inr []),
       lemmatize = (\<lambda>token. Inr token),
       stop_words = [],
       readability_metrics = (\<lambda>text.
         [(''sentence_count'', PInt 0), (''word_count'', PInt 0),
          (''avg_words_per_sentence'', PInt 0), (''avg_sentence_length'', PInt 0)]),
       entities_found = (\<lambda>text. []),
       keywords_body = (\<lambda>text num_keywords. Inr []),
       classification_of = (\<lambda>text categories.
         PDict [(''primary_category'', PStr ''business''), (''confidence'', PInt 0),
                (''all_scores'',
                   PDict (map (\<lambda>name. (name, PInt 0))
                     [''business'', ''technology'', ''science'', ''health'', ''education'',
                      ''entertainment'', ''sports'', ''politics'', ''travel'', ''food'',
                      ''finance'', ''legal'', ''medical'', ''academic'', ''news''])),
                (''classification_type'', PStr ''keyword_based'')]),
       summary_ranking = (\<lambda>text sentences max_length. Inr []) \<rparr>"

text \<open>The same libraries when the data of the sentence tokenizer is not installed.\<close>

definition tokenizer_missing :: text_library where
  "tokenizer_missing =
     on_empty_text\<lparr> sent_tokenize := (\<lambda>text. Inl (Exn ''Resource punkt not found.'')) \<rparr>"

section \<open>Properties of the job record\<close>

text \<open>No method of the job writes the retry columns.\<close>

lemma call_retry_columns:
  "retry_count (call j c) = retry_count j \<and> max_retries (call j c) = max_retries j"
  by (cases c)
     (simp_all add: start_processing_def complete_processing_def fail_processing_def
        add_log_entry_def update_progress_def Let_def split: option.split)

lemma calls_retry_columns:
  "retry_count (calls j cs) = retry_count j \<and> max_retries (calls j cs) = max_retries j"
  unfolding calls_def
proof (induction cs arbitrary: j)
  case Nil
  show ?case by simp
next
  case (Cons c cs)
  show ?case using Cons.IH [of "call j c"] call_retry_columns [of j c] by simp
qed

text \<open>
  C1, as amended. \<^verbatim>\<open>start_processing\<close> does not look at the current status: on every
  job it sets the status to Running and records the start time and the worker it is given.
  Called again on a job that is already Running it succeeds again, and the job then holds the
  second caller's worker and start time, exactly as if the first call had not happened. The
  record has no lease and the program no AlreadyClaimedError.
\<close>

theorem start_processing_unconditional:
  "status (start_processing j now wid) = RUNNING
   \<and> started_at (start_processing j now wid) = Some now
   \<and> worker_id (start_processing j now wid) = wid
   \<and> start_processing (start_processing j now wid) now' wid' = start_processing j now' wid'"
  by (simp add: start_processing_def)

text \<open>
  C1 as stated fails: a new job is claimed by worker-1 at time 1 and is Running; the claim by
  worker-2 at time 2 does not fail, it changes the job, which is then held by worker-2.
\<close>

theorem second_claim_counterexample:
  "is_running (start_processing new_job 1 (Some ''worker-1''))
   \<and> start_processing (start_processing new_job 1 (Some ''worker-1'')) 2 (Some ''worker-2'')
       \<noteq> start_processing new_job 1 (Some ''worker-1'')
   \<and> status (start_processing (start_processing new_job 1 (Some ''worker-1'')) 2 (Some ''worker-2''))
       = RUNNING
   \<and> worker_id (start_processing (start_processing new_job 1 (Some ''worker-1'')) 2 (Some ''worker-2''))
       = Some ''worker-2''
   \<and> started_at (start_processing (start_processing new_job 1 (Some ''worker-1'')) 2 (Some ''worker-2''))
       = Some 2"
proof -
  have "worker_id (start_processing (start_processing new_job 1 (Some ''worker-1'')) 2 (Some ''worker-2''))
        \<noteq> worker_id (start_processing new_job 1 (Some ''worker-1''))"
    by (simp add: start_processing_def)
  then have "start_processing (start_processing new_job 1 (Some ''worker-1'')) 2 (Some ''worker-2'')
       \<noteq> start_processing new_job 1 (Some ''worker-1'')"
    by metis
  then show ?thesis by (simp add: start_processing_def is_running_def)
qed

text \<open>
  C2, as amended. Whatever the retry count, \<^verbatim>\<open>fail_processing\<close> leaves the job Failed,
  with the completion time and the error message recorded; it changes neither the retry
  count, nor the retry limit, nor the worker. No method of the job writes the retry count or
  the limit, so after any sequence of calls both are what they were, and a job whose retry
  count did not exceed its limit when it was stored never exceeds it.
\<close>

theorem fail_processing_never_requeues:
  "status (fail_processing j now msg code) = FAILED
   \<and> completed_at (fail_processing j now msg code) = Some now
   \<and> error_message (fail_processing j now msg code) = Some msg
   \<and> retry_count (fail_processing j now msg code) = retry_count j
   \<and> max_retries (fail_processing j now msg code) = max_retries j
   \<and> worker_id (fail_processing j now msg code) = worker_id j
   \<and> retry_count (calls j cs) = retry_count j
   \<and> max_retries (calls j cs) = max_retries j
   \<and> (retry_count j \<le> max_retries j \<longrightarrow> retry_count (calls j cs) \<le> max_retries (calls j cs))"
  using calls_retry_columns [of j cs] by (simp add: fail_processing_def)

theorem fail_processing_never_requeues_witness:
  "retry_count new_job \<le> max_retries new_job
   \<and> status (fail_processing (start_processing new_job 1 (Some ''worker-1'')) 2 ''boom'' None) = FAILED
   \<and> retry_count (calls new_job [StartProcessing 1 (Some ''worker-1''), FailProcessing 2 ''boom'' None,
         StartProcessing 3 (Some ''worker-2''), FailProcessing 4 ''boom'' None]) = 0
   \<and> retry_count (calls new_job [StartProcessing 1 (Some ''worker-1''), FailProcessing 2 ''boom'' None,
         StartProcessing 3 (Some ''worker-2''), FailProcessing 4 ''boom'' None])
      \<le> max_retries (calls new_job [StartProcessing 1 (Some ''worker-1''), FailProcessing 2 ''boom'' None,
         StartProcessing 3 (Some ''worker-2''), FailProcessing 4 ''boom'' None])"
  using
    fail_processing_never_requeues
      [of "start_processing new_job 1 (Some ''worker-1'')" 2 "''boom''" None "[]"]
    fail_processing_never_requeues
      [of new_job 0 "''boom''" None
          "[StartProcessing 1 (Some ''worker-1''), FailProcessing 2 ''boom'' None,
            StartProcessing 3 (Some ''worker-2''), FailProcessing 4 ''boom'' None]"]
  by (simp add: new_job_def)

text \<open>
  C2 as stated fails: a job with retry count 0 and limit 3, held by worker-1, fails. It is
  not queued again: its status is Failed, its retry count is still 0 and it still names
  worker-1.
\<close>

theorem retry_counterexample:
  "retry_count (start_processing new_job 1 (Some ''worker-1''))
     < max_retries (start_processing new_job 1 (Some ''worker-1''))
   \<and> status (fail_processing (start_processing new_job 1 (Some ''worker-1'')) 2 ''boom'' None) = FAILED
   \<and> status (fail_processing (start_processing new_job 1 (Some ''worker-1'')) 2 ''boom'' None) \<noteq> QUEUED
   \<and> retry_count (fail_processing (start_processing new_job 1 (Some ''worker-1'')) 2 ''boom'' None) = 0
   \<and> worker_id (fail_processing (start_processing new_job 1 (Some ''worker-1'')) 2 ''boom'' None)
       = Some ''worker-1''"
  by (simp add: fail_processing_def start_processing_def new_job_def)

text \<open>
  C3, as amended. The progress stored by \<^verbatim>\<open>update_progress\<close>, of a job and of a
  document, is a percentage: for every real number reported it lies in the range from 0 to
  100, a negative report is stored as 0, a report above 100 as 100, and a report within the
  range as it is.
\<close>

theorem update_progress_clamped:
  "0 \<le> progress_percentage (update_progress j stage p)
   \<and> progress_percentage (update_progress j stage p) \<le> 100
   \<and> (p < 0 \<longrightarrow> progress_percentage (update_progress j stage p) = 0)
   \<and> (100 < p \<longrightarrow> progress_percentage (update_progress j stage p) = 100)
   \<and> (0 \<le> p \<and> p \<le> 100 \<longrightarrow> progress_percentage (update_progress j stage p) = p)
   \<and> 0 \<le> doc_progress_percentage (document_update_progress d dstage p)
   \<and> doc_progress_percentage (document_update_progress d dstage p) \<le> 100
   \<and> (p < 0 \<longrightarrow> doc_progress_percentage (document_update_progress d dstage p) = 0)
   \<and> (100 < p \<longrightarrow> doc_progress_percentage (document_update_progress d dstage p) = 100)
   \<and> (0 \<le> p \<and> p \<le> 100 \<longrightarrow> doc_progress_percentage (document_update_progress d dstage p) = p)"
  by (simp add: update_progress_def document_update_progress_def min_def max_def)

theorem update_progress_clamped_witness:
  "(100::real) < 250
   \<and> progress_percentage (update_progress new_job ''extraction'' 250) = 100
   \<and> 0 \<le> progress_percentage (update_progress new_job ''extraction'' 250)
   \<and> progress_percentage (update_progress new_job ''extraction'' 250) \<le> 100"
  using update_progress_clamped [of new_job "''extraction''" 250] by simp

text \<open>
  C3 as stated fails: a report of 50 is stored as 50, which is not in the range from 0 to 1.
\<close>

theorem progress_counterexample:
  "progress_percentage (update_progress new_job ''extraction'' 50) = 50
   \<and> \<not> progress_percentage (update_progress new_job ''extraction'' 50) \<le> 1"
  by (simp add: update_progress_def)

text \<open>
  C4, as amended. \<^verbatim>\<open>complete_processing\<close> called on a job that a first call completed
  leaves the status Completed and the progress 100, and it stores the time of the second
  call as the completion time. A second call that is given an output key which is not empty
  stores that key; a second call with no key, or with the empty key, keeps the key the job
  had. The second call changes no other column of the job, and the method does nothing but
  write these columns. So with no output key given the job is as it was before exactly when
  both calls read the same time, and in general exactly when they read the same time and
  the second call gives no key, the empty key, or the key the job already has.
\<close>

theorem complete_processing_twice:
  "status (complete_processing (complete_processing j now key) now' key') = COMPLETED
   \<and> progress_percentage (complete_processing (complete_processing j now key) now' key') = 100
   \<and> completed_at (complete_processing (complete_processing j now key) now' key') = Some now'
   \<and> complete_processing (complete_processing j now key) now' None
       = (complete_processing j now key)\<lparr> completed_at := Some now' \<rparr>
   \<and> (complete_processing (complete_processing j now key) now' None = complete_processing j now key)
       = (now' = now)
   \<and> (\<forall>k. k \<noteq> [] \<longrightarrow>
         output_s3_key (complete_processing (complete_processing j now key) now' (Some k)) = Some k
         \<and> complete_processing (complete_processing j now key) now' (Some k)
             = (complete_processing j now key)\<lparr> completed_at := Some now', output_s3_key := Some k \<rparr>)
   \<and> complete_processing (complete_processing j now key) now' (Some [])
       = (complete_processing j now key)\<lparr> completed_at := Some now' \<rparr>
   \<and> output_s3_key (complete_processing (complete_processing j now key) now' None)
       = output_s3_key (complete_processing j now key)
   \<and> output_s3_key (complete_processing (complete_processing j now key) now' (Some []))
       = output_s3_key (complete_processing j now key)
   \<and> (complete_processing (complete_processing j now key) now' key' = complete_processing j now key)
       = (now' = now
          \<and> (key' = None \<or> key' = Some []
               \<or> key' = output_s3_key (complete_processing j now key)))"
proof -
  let ?c = "complete_processing j now key"
  have at: "completed_at ?c = Some now"
    by (simp add: complete_processing_def Let_def split: option.split)
  have again: "complete_processing ?c now' None = ?c\<lparr> completed_at := Some now' \<rparr>"
    by (simp add: complete_processing_def Let_def split: option.split)
  have empty: "complete_processing ?c now' (Some []) = ?c\<lparr> completed_at := Some now' \<rparr>"
    by (simp add: complete_processing_def Let_def split: option.split)
  have given: "complete_processing ?c now' (Some k)
      = ?c\<lparr> completed_at := Some now', output_s3_key := Some k \<rparr>" if "k \<noteq> []" for k
    using that by (simp add: complete_processing_def Let_def split: option.split)
  have same: "(?c\<lparr> completed_at := Some now' \<rparr> = ?c) = (now' = now)"
  proof
    assume "?c\<lparr> completed_at := Some now' \<rparr> = ?c"
    then have "completed_at (?c\<lparr> completed_at := Some now' \<rparr>) = completed_at ?c" by simp
    with at show "now' = now" by simp
  next
    assume "now' = now"
    with at show "?c\<lparr> completed_at := Some now' \<rparr> = ?c" by simp
  qed
  have same_key: "(?c\<lparr> completed_at := Some now', output_s3_key := Some k \<rparr> = ?c)
      = (now' = now \<and> Some k = output_s3_key ?c)" for k
  proof
    assume e: "?c\<lparr> completed_at := Some now', output_s3_key := Some k \<rparr> = ?c"
    then have "completed_at (?c\<lparr> completed_at := Some now', output_s3_key := Some k \<rparr>)
        = completed_at ?c" by simp
    with at have t: "now' = now" by simp
    from e have "output_s3_key (?c\<lparr> completed_at := Some now', output_s3_key := Some k \<rparr>)
        = output_s3_key ?c" by simp
    with t show "now' = now \<and> Some k = output_s3_key ?c" by simp
  next
    assume "now' = now \<and> Some k = output_s3_key ?c"
    with at show "?c\<lparr> completed_at := Some now', output_s3_key := Some k \<rparr> = ?c"
      by (metis processing_job.surjective processing_job.update_convs(6)
            processing_job.update_convs(8))
  qed
  have fields: "status (complete_processing ?c now' key') = COMPLETED
      \<and> progress_percentage (complete_processing ?c now' key') = 100
      \<and> completed_at (complete_processing ?c now' key') = Some now'"
    by (simp add: complete_processing_def Let_def split: option.split)
  have unchanged: "(complete_processing ?c now' key' = ?c)
      = (now' = now \<and> (key' = None \<or> key' = Some [] \<or> key' = output_s3_key ?c))"
  proof (cases key')
    case None
    with again same show ?thesis by simp
  next
    case (Some k)
    show ?thesis
    proof (cases "k = []")
      case True
      with Some empty same show ?thesis by simp
    next
      case False
      with Some given [OF False] same_key [of k] show ?thesis by auto
    qed
  qed
  from fields again empty given same unchanged show ?thesis by simp
qed

theorem complete_processing_twice_witness:
  "''out/a.json'' \<noteq> []
   \<and> output_s3_key (complete_processing (complete_processing new_job 1 None) 2 (Some ''out/a.json''))
       = Some ''out/a.json''
   \<and> output_s3_key (complete_processing (complete_processing new_job 1 (Some ''out/a.json'')) 2 None)
       = Some ''out/a.json''
   \<and> status (complete_processing (complete_processing new_job 1 None) 2 (Some ''out/a.json''))
       = COMPLETED"
  using complete_processing_twice [of new_job 1 None 2 "Some ''out/a.json''"]
    complete_processing_twice [of new_job 1 "Some ''out/a.json''" 2 None]
  by (simp add: complete_processing_def)

text \<open>
  C4 as stated fails: a job completed at time 1 and completed again at time 2 is not the job
  it was; its completion time has moved from 1 to 2.
\<close>

theorem complete_counterexample:
  "is_completed (complete_processing new_job 1 None)
   \<and> complete_processing (complete_processing new_job 1 None) 2 None
        \<noteq> complete_processing new_job 1 None
   \<and> completed_at (complete_processing new_job 1 None) = Some 1
   \<and> completed_at (complete_processing (complete_processing new_job 1 None) 2 None) = Some 2"
proof -
  have "completed_at (complete_processing (complete_processing new_job 1 None) 2 None)
        \<noteq> completed_at (complete_processing new_job 1 None)"
    by (simp add: complete_processing_def)
  then have "complete_processing (complete_processing new_job 1 None) 2 None
        \<noteq> complete_processing new_job 1 None"
    by metis
  then show ?thesis by (simp add: complete_processing_def is_completed_def)
qed


section \<open>Properties of the WebSocket fan-out\<close>

subsection \<open>The loop of broadcast and its clean-up\<close>

lemma broadcast_loop:
  "foldl (broadcast_step w message) (sent, disconnected) cs
     = (sent @ map (\<lambda>c. (c, message)) (filter (healthy w) cs),
        disconnected @ filter (\<lambda>c. \<not> healthy w c) cs)"
  by (induction cs arbitrary: sent disconnected) (simp_all add: healthy_def)

lemma disconnect_active:
  "active_connections (disconnect cm c) = remove1 c (active_connections cm)"
  by (simp add: disconnect_def Let_def remove1_idem)

lemma disconnect_all_active:
  "active_connections (foldl disconnect cm ds)
     = foldl (\<lambda>acc d. remove1 d acc) (active_connections cm) ds"
  by (induction ds arbitrary: cm) (simp_all add: disconnect_active)

lemma remove_others:
  "x \<notin> set ds \<Longrightarrow>
     foldl (\<lambda>acc d. remove1 d acc) (x # xs) ds = x # foldl (\<lambda>acc d. remove1 d acc) xs ds"
  by (induction ds arbitrary: xs) auto

text \<open>Removing, one occurrence at a time, every entry that fails leaves the entries that do not.\<close>

lemma remove_unhealthy:
  "foldl (\<lambda>acc d. remove1 d acc) cs (filter (\<lambda>c. \<not> P c) cs) = filter P cs"
proof (induction cs)
  case Nil
  show ?case by simp
next
  case (Cons c cs)
  show ?case
  proof (cases "P c")
    case True
    then have "c \<notin> set (filter (\<lambda>c. \<not> P c) cs)" by simp
    from remove_others [OF this] True Cons.IH show ?thesis by simp
  next
    case False
    with Cons.IH show ?thesis by simp
  qed
qed

lemma broadcast_result:
  "broadcast w cm message =
     (foldl disconnect cm (filter (\<lambda>c. \<not> healthy w c) (active_connections cm)),
      map (\<lambda>c. (c, message)) (filter (healthy w) (active_connections cm)))"
  by (simp add: broadcast_def broadcast_loop)

lemma broadcast_sent:
  "snd (broadcast w cm message)
     = map (\<lambda>c. (c, message)) (filter (healthy w) (active_connections cm))"
  by (simp add: broadcast_result)

lemma broadcast_active:
  "active_connections (fst (broadcast w cm message)) = filter (healthy w) (active_connections cm)"
  by (simp add: broadcast_result disconnect_all_active remove_unhealthy)

lemma send_to_user_sent:
  "snd (send_to_user w m u data)
     = map (\<lambda>c. (c, data))
         (filter (healthy w) (active_connections (manager_at (user_connections m) u)))"
  by (simp add: send_to_user_def manager_at_def new_ConnectionManager_def broadcast_result
      split: option.split)

lemma send_to_user_frame:
  "job_connections (fst (send_to_user w m u data)) = job_connections m"
  by (simp add: send_to_user_def broadcast_result split: option.split)

lemma send_job_update_sent:
  "snd (send_job_update w m j data now)
     = map (\<lambda>c. (c, PDict [(''type'', PStr ''job_update''), (''job_id'', PStr j),
                          (''data'', PDict data), (''timestamp'', PStr now)]))
         (filter (healthy w) (active_connections (manager_at (job_connections m) j)))"
  by (simp add: send_job_update_def manager_at_def new_ConnectionManager_def broadcast_result
      split: option.split)


text \<open>A registration, in full: it appends when the socket is new and its handshake succeeds.\<close>

lemma subscribe_to_job_cases:
  "subscribe_to_job w m c j =
     (if application_state w c = CONNECTING \<and> accept_raises w c = None
      then (m\<lparr> job_connections := (job_connections m)
                (j := Some ((manager_at (job_connections m) j)
                      \<lparr> active_connections :=
                          active_connections (manager_at (job_connections m) j) @ [c] \<rparr>)) \<rparr>,
            w\<lparr> application_state := (application_state w)(c := CONNECTED) \<rparr>, None)
      else (m\<lparr> job_connections := (job_connections m)(j := Some (manager_at (job_connections m) j)) \<rparr>,
            snd (accept w c), fst (accept w c)))"
  by (simp add: subscribe_to_job_def connect_def accept_def Let_def split: option.split)






text \<open>No call of \<^verbatim>\<open>accept()\<close> makes a socket new again.\<close>

lemma accept_never_renews:
  "application_state (snd (accept w c)) x = CONNECTING \<Longrightarrow> application_state w x = CONNECTING"
  by (cases "x = c") (auto simp add: accept_def split: option.splits if_splits)

text \<open>A socket in a list of subscribers has been accepted, and it stays so.\<close>

lemma subscribers_stay_accepted:
  assumes "list_all (\<lambda>x. application_state w x \<noteq> CONNECTING)
             (active_connections (manager_at (job_connections m) j'))"
  shows "list_all (\<lambda>x. application_state (fst (snd (subscribe_to_job w m c j))) x \<noteq> CONNECTING)
           (active_connections (manager_at (job_connections (fst (subscribe_to_job w m c j))) j'))"
proof (cases "application_state w c = CONNECTING \<and> accept_raises w c = None")
  case True
  with assms show ?thesis
    by (auto simp add: subscribe_to_job_cases manager_at_def list_all_iff)
next
  case False
  then have "subscribe_to_job w m c j
      = (m\<lparr> job_connections := (job_connections m)(j := Some (manager_at (job_connections m) j)) \<rparr>,
         snd (accept w c), fst (accept w c))"
    by (simp only: subscribe_to_job_cases if_False)
  with assms show ?thesis
    by (auto simp add: manager_at_def list_all_iff dest: accept_never_renews)
qed

lemmas build_manager =
  join_room_def subscribe_to_chat_def subscribe_to_job_def connect_user_def connect_def accept_def
  new_sockets_def new_WebSocketManager_def manager_at_def new_ConnectionManager_def
  send_to_user_def broadcast_def disconnect_def Let_def

subsection \<open>The claims\<close>

text \<open>
  C5. A connection is healthy when it reports CONNECTED and sending to it does not raise;
  the connections that are not healthy are the failing ones, and they may be any subset of
  the registered connections. A broadcast sends the message to the healthy registered
  connections, in their order and as often as each is registered, and nothing else; after it
  the registered connections are the healthy ones among those registered before. So every
  healthy registered connection receives the message and stays registered, and no failing
  connection stays.
\<close>

theorem broadcast_isolates_failures:
  "snd (broadcast w cm message)
     = map (\<lambda>c. (c, message)) (filter (healthy w) (active_connections cm))
   \<and> active_connections (fst (broadcast w cm message)) = filter (healthy w) (active_connections cm)
   \<and> (\<forall>c. c \<in> set (active_connections cm) \<and> healthy w c \<longrightarrow>
          (c, message) \<in> set (snd (broadcast w cm message))
          \<and> c \<in> set (active_connections (fst (broadcast w cm message))))
   \<and> (\<forall>c. \<not> healthy w c \<longrightarrow>
          c \<notin> set (active_connections (fst (broadcast w cm message)))
          \<and> (c, message) \<notin> set (snd (broadcast w cm message)))"
  by (auto simp add: broadcast_sent broadcast_active)

theorem broadcast_isolates_failures_witness:
  "1 \<in> set (active_connections three_sockets)
   \<and> healthy socket_2_fails 1 \<and> \<not> healthy socket_2_fails 2 \<and> healthy socket_2_fails 3
   \<and> snd (broadcast socket_2_fails three_sockets (PStr ''event''))
       = [(1, PStr ''event''), (3, PStr ''event'')]
   \<and> active_connections (fst (broadcast socket_2_fails three_sockets (PStr ''event''))) = [1, 3]"
  using broadcast_isolates_failures [of socket_2_fails three_sockets "PStr ''event''"]
  by (simp add: healthy_def socket_2_fails_def three_sockets_def)

text \<open>
  C6, as amended. \<^verbatim>\<open>disconnect_user\<close> does nothing for a connection that has no user.
  For a connection with a user it forgets the user, cancels the heartbeat, and removes one
  occurrence of the connection, with its metadata, from that user's channel; the channel is
  deleted when this leaves it empty, and the channels of the other users are not touched.
  In both cases it leaves the subscribers of every job, of every room and of every chat
  session as they were.
\<close>

theorem disconnect_user_scope:
  "job_connections (disconnect_user m c) = job_connections m
   \<and> room_connections (disconnect_user m c) = room_connections m
   \<and> chat_connections (disconnect_user m c) = chat_connections m
   \<and> connection_users (disconnect_user m c) = (connection_users m)(c := None)
   \<and> (connection_users m c = None \<longrightarrow> disconnect_user m c = m)
   \<and> (\<forall>u. connection_users m c = Some u \<longrightarrow>
        heartbeat_tasks (disconnect_user m c) = heartbeat_tasks m - {c}
        \<and> (\<forall>u'. u' \<noteq> u \<longrightarrow> user_connections (disconnect_user m c) u' = user_connections m u')
        \<and> (user_connections m u = None \<longrightarrow> user_connections (disconnect_user m c) u = None)
        \<and> (\<forall>cm. user_connections m u = Some cm \<longrightarrow>
              user_connections (disconnect_user m c) u
                = (if remove1 c (active_connections cm) = [] then None else Some (disconnect cm c))
              \<and> active_connections (disconnect cm c) = remove1 c (active_connections cm)
              \<and> metadata (disconnect cm c) = (metadata cm)(c := None))
        \<and> active_connections (manager_at (user_connections (disconnect_user m c)) u)
            = remove1 c (active_connections (manager_at (user_connections m) u)))"
proof -
  have frame: "job_connections (disconnect_user m c) = job_connections m
      \<and> room_connections (disconnect_user m c) = room_connections m
      \<and> chat_connections (disconnect_user m c) = chat_connections m"
    by (simp add: disconnect_user_def Let_def split: option.split)
  have users: "connection_users (disconnect_user m c) = (connection_users m)(c := None)"
    by (auto simp add: disconnect_user_def Let_def fun_eq_iff split: option.split)
  have none: "connection_users m c = None \<longrightarrow> disconnect_user m c = m"
    by (simp add: disconnect_user_def)
  have md: "metadata (disconnect cm c) = (metadata cm)(c := None)" for cm
    by (auto simp add: disconnect_def Let_def fun_eq_iff)
  have some: "heartbeat_tasks (disconnect_user m c) = heartbeat_tasks m - {c}
        \<and> (\<forall>u'. u' \<noteq> u \<longrightarrow> user_connections (disconnect_user m c) u' = user_connections m u')
        \<and> (user_connections m u = None \<longrightarrow> user_connections (disconnect_user m c) u = None)
        \<and> (\<forall>cm. user_connections m u = Some cm \<longrightarrow>
              user_connections (disconnect_user m c) u
                = (if remove1 c (active_connections cm) = [] then None else Some (disconnect cm c))
              \<and> active_connections (disconnect cm c) = remove1 c (active_connections cm)
              \<and> metadata (disconnect cm c) = (metadata cm)(c := None))
        \<and> active_connections (manager_at (user_connections (disconnect_user m c)) u)
            = remove1 c (active_connections (manager_at (user_connections m) u))"
    if "connection_users m c = Some u" for u
    using that
    by (auto simp add: disconnect_user_def Let_def manager_at_def new_ConnectionManager_def
          disconnect_active md split: option.split)
  from frame users none some show ?thesis by blast
qed

theorem disconnect_user_scope_witness:
  "connection_users alice_alone 7 = Some ''alice''
   \<and> active_connections (manager_at (user_connections alice_alone) ''alice'') = [7]
   \<and> user_connections (disconnect_user alice_alone 7) ''alice'' = None
   \<and> connection_users (disconnect_user alice_alone 7) 7 = None
   \<and> heartbeat_tasks (disconnect_user alice_alone 7) = heartbeat_tasks alice_alone - {7}
   \<and> job_connections (disconnect_user alice_alone 7) = job_connections alice_alone"
proof -
  have a: "connection_users alice_alone 7 = Some ''alice''"
    and b: "user_connections alice_alone ''alice''
              = Some \<lparr> active_connections = [7], metadata = (\<lambda>_. None) \<rparr>"
    by (simp_all add: alice_alone_def build_manager)
  from b have c: "active_connections (manager_at (user_connections alice_alone) ''alice'') = [7]"
    by (simp add: manager_at_def)
  show ?thesis
    using disconnect_user_scope [of alice_alone 7] a b c by simp
qed

text \<open>
  C6 as stated fails: socket 7 has subscribed to job-1, socket 8 to chat-1 and socket 9 to
  room-1, each in its first and only registration. After \<^verbatim>\<open>disconnect_user\<close> for each
  of the three sockets, socket 7 is still a subscriber of the job, socket 8 of the chat and
  socket 9 of the room.
\<close>

theorem disconnect_user_counterexample:
  "snd (snd job_watcher) = None \<and> snd (snd chat_watcher) = None \<and> snd (snd room_watcher) = None
   \<and> active_connections (manager_at (job_connections three_watchers) ''job-1'') = [7]
   \<and> active_connections (manager_at (chat_connections three_watchers) ''chat-1'') = [8]
   \<and> active_connections (manager_at (room_connections three_watchers) ''room-1'') = [9]
   \<and> active_connections
        (manager_at (job_connections
           (disconnect_user (disconnect_user (disconnect_user three_watchers 7) 8) 9)) ''job-1'')
       = [7]
   \<and> active_connections
        (manager_at (chat_connections
           (disconnect_user (disconnect_user (disconnect_user three_watchers 7) 8) 9)) ''chat-1'')
       = [8]
   \<and> active_connections
        (manager_at (room_connections
           (disconnect_user (disconnect_user (disconnect_user three_watchers 7) 8) 9)) ''room-1'')
       = [9]"
  by (simp add: three_watchers_def room_watcher_def chat_watcher_def job_watcher_def
        disconnect_user_def build_manager)

text \<open>
  C7, as amended. \<^verbatim>\<open>send_processing_update\<close> makes two fan-outs. The healthy
  connections of the user's channel receive the dictionary with the six keys type (which is
  processing_update), job_id, status, progress, message and timestamp; then the healthy
  subscribers of the job receive another dictionary, of type job_update, with job_id, with
  status, progress and message under the key data, and with its own timestamp. Nothing else
  is sent, and neither message has a stage.
\<close>

theorem send_processing_update_messages:
  "map fst (update_data j stat p msg now)
     = [''type'', ''job_id'', ''status'', ''progress'', ''message'', ''timestamp'']
   \<and> snd (send_processing_update w m u j stat p msg now now')
     = map (\<lambda>c. (c, PDict (update_data j stat p msg now)))
         (filter (healthy w) (active_connections (manager_at (user_connections m) u)))
       @ map (\<lambda>c. (c, PDict [(''type'', PStr ''job_update''), (''job_id'', PStr j),
                           (''data'', PDict [(''status'', PStr stat), (''progress'', PFloat p),
                                            (''message'', msg)]),
                           (''timestamp'', PStr now')]))
         (filter (healthy w) (active_connections (manager_at (job_connections m) j)))"
proof -
  obtain m1 s1 where a: "send_to_user w m u (PDict (update_data j stat p msg now)) = (m1, s1)"
    by (cases "send_to_user w m u (PDict (update_data j stat p msg now))")
  obtain m2 s2 where b: "send_job_update w m1 j
      [(''status'', PStr stat), (''progress'', PFloat p), (''message'', msg)] now' = (m2, s2)"
    by (cases "send_job_update w m1 j
      [(''status'', PStr stat), (''progress'', PFloat p), (''message'', msg)] now'")
  have s1: "s1 = map (\<lambda>c. (c, PDict (update_data j stat p msg now)))
         (filter (healthy w) (active_connections (manager_at (user_connections m) u)))"
    using send_to_user_sent [of w m u "PDict (update_data j stat p msg now)"] a by simp
  have "job_connections m1 = job_connections m"
    using send_to_user_frame [of w m u "PDict (update_data j stat p msg now)"] a by simp
  then have s2: "s2 = map (\<lambda>c. (c, PDict [(''type'', PStr ''job_update''), (''job_id'', PStr j),
                           (''data'', PDict [(''status'', PStr stat), (''progress'', PFloat p),
                                            (''message'', msg)]),
                           (''timestamp'', PStr now')]))
         (filter (healthy w) (active_connections (manager_at (job_connections m) j)))"
    using send_job_update_sent
        [of w m1 j "[(''status'', PStr stat), (''progress'', PFloat p), (''message'', msg)]" now'] b
    by simp
  have "snd (send_processing_update w m u j stat p msg now now') = s1 @ s2"
    by (simp add: send_processing_update_def a b)
  with s1 s2 show ?thesis by (simp add: update_data_def)
qed

text \<open>
  C7 as stated fails: with socket 1 the connection of alice and socket 2 a subscriber of
  job-1, an update of job-1 for alice sends exactly two messages. The one for socket 1 has
  no stage; the one for socket 2 is of type job_update and has no stage either.
\<close>

theorem stage_counterexample:
  "snd (send_processing_update two_watchers_world two_watchers ''alice'' ''job-1'' ''processing'' (1/2)
          (PStr ''Text extracted'') ''t1'' ''t2'')
     = [(1, PDict [(''type'', PStr ''processing_update''), (''job_id'', PStr ''job-1''),
                   (''status'', PStr ''processing''), (''progress'', PFloat (1/2)),
                   (''message'', PStr ''Text extracted''), (''timestamp'', PStr ''t1'')]),
        (2, PDict [(''type'', PStr ''job_update''), (''job_id'', PStr ''job-1''),
                   (''data'', PDict [(''status'', PStr ''processing''), (''progress'', PFloat (1/2)),
                                    (''message'', PStr ''Text extracted'')]),
                   (''timestamp'', PStr ''t2'')])]
   \<and> map_of (update_data ''job-1'' ''processing'' (1/2) (PStr ''Text extracted'') ''t1'') ''stage''
       = None"
  by (simp add: send_processing_update_def two_watchers_def two_watchers_world_def
        watcher_subscribes_def alice_connects_def send_job_update_def update_data_def
        build_manager)




section \<open>Properties of the text processing\<close>

subsection \<open>Dictionaries and steps\<close>

lemma map_of_dict_set:
  "map_of (dict_set k v d) k' = (if k' = k then Some v else map_of d k')"
  by (simp add: dict_set_def update_conv')

lemma and_then_snd:
  "snd (and_then out step) = (case snd out of Some e \<Rightarrow> Some e | None \<Rightarrow> snd (step (fst out)))"
  by (cases out) (simp add: and_then_def split: option.split)

lemma and_then_fst:
  "fst (and_then out step) = (case snd out of Some e \<Rightarrow> fst out | None \<Rightarrow> fst (step (fst out)))"
  by (cases out) (simp add: and_then_def split: option.split)

lemma step_clean_snd: "snd (step_clean c r) = None"
  by (simp add: step_clean_def)

lemma step_metrics_snd:
  "snd (step_metrics lib c r) =
     (case extract_sentences lib c of
        Inl e \<Rightarrow> Some e
      | Inr sentences \<Rightarrow> (case tokenize_text lib c of Inl e \<Rightarrow> Some e | Inr tokens \<Rightarrow> None))"
  by (simp add: step_metrics_def split: sum.split)

lemma step_readability_snd: "snd (step_readability lib c options r) = None"
  by (simp add: step_readability_def)

lemma step_entities_snd: "snd (step_entities lib c options r) = None"
  by (simp add: step_entities_def)

lemma step_keywords_snd: "snd (step_keywords lib c options r) = None"
  by (simp add: step_keywords_def)

lemma step_classification_snd:
  "snd (step_classification lib c options r) =
     (if truthy (dict_get options ''classify_text'' (PBool True))
      then (case classify_text lib c (dict_get options ''categories'' PNone) of
              Inl e \<Rightarrow> Some e | Inr v \<Rightarrow> None)
      else None)"
  by (simp add: step_classification_def split: sum.split)

lemma step_summary_snd:
  "snd (step_summary lib c options r) =
     (if truthy (dict_get options ''generate_summary'' (PBool True))
      then (case generate_summary lib c (dict_get options ''summary_max_length'' (PInt 500)) of
              Inl e \<Rightarrow> Some e | Inr v \<Rightarrow> None)
      else None)"
  by (simp add: step_summary_def split: sum.split)

lemma step_success_snd: "snd (step_success r) = None"
  by (simp add: step_success_def)

lemmas steps_snd =
  step_clean_snd step_metrics_snd step_readability_snd step_entities_snd step_keywords_snd
  step_classification_snd step_summary_snd step_success_snd

text \<open>The exception that ends the try block, if any, does not depend on the dictionary.\<close>

lemma try_block_snd:
  "snd (try_block lib text options r) =
     (case snd (step_metrics lib (clean_text lib text) []) of
        Some e \<Rightarrow> Some e
      | None \<Rightarrow>
          (case snd (step_classification lib (clean_text lib text) options []) of
             Some e \<Rightarrow> Some e
           | None \<Rightarrow> snd (step_summary lib (clean_text lib text) options [])))"
  by (simp add: try_block_def Let_def and_then_snd steps_snd split: option.split sum.split)


lemma and_then_frame:
  "map_of (fst out) k = v \<Longrightarrow> (\<And>r. map_of (fst (step r)) k = map_of r k)
     \<Longrightarrow> map_of (fst (and_then out step)) k = v"
  by (cases out) (simp add: and_then_def split: option.split)

lemma steps_frame:
  assumes "k \<notin> {''cleaned_text'', ''cleaned_length'', ''sentence_count'', ''word_count'',
                 ''unique_words'', ''avg_sentence_length'', ''readability'', ''entities'',
                 ''keywords'', ''classification'', ''summary'', ''success''}"
  shows "map_of (fst (step_clean c r)) k = map_of r k"
    and "map_of (fst (step_metrics lib c r)) k = map_of r k"
    and "map_of (fst (step_readability lib c options r)) k = map_of r k"
    and "map_of (fst (step_entities lib c options r)) k = map_of r k"
    and "map_of (fst (step_keywords lib c options r)) k = map_of r k"
    and "map_of (fst (step_classification lib c options r)) k = map_of r k"
    and "map_of (fst (step_summary lib c options r)) k = map_of r k"
    and "map_of (fst (step_success r)) k = map_of r k"
  using assms
  by (simp_all add: step_clean_def step_metrics_def step_readability_def step_entities_def
        step_keywords_def step_classification_def step_summary_def step_success_def
        dict_update_def map_of_dict_set split: sum.split)

lemma try_block_frame:
  assumes "k \<notin> {''cleaned_text'', ''cleaned_length'', ''sentence_count'', ''word_count'',
                 ''unique_words'', ''avg_sentence_length'', ''readability'', ''entities'',
                 ''keywords'', ''classification'', ''summary'', ''success''}"
  shows "map_of (fst (try_block lib text options r)) k = map_of r k"
  unfolding try_block_def Let_def
  by (intro and_then_frame steps_frame assms)

lemma try_block_success:
  assumes "snd (try_block lib text options r) = None"
  shows "map_of (fst (try_block lib text options r)) ''success'' = Some (PBool True)"
proof -
  obtain out where t: "try_block lib text options r = and_then out step_success"
    by (simp add: try_block_def Let_def)
  from assms t have "snd out = None"
    by (simp add: and_then_snd split: option.splits)
  with t show ?thesis
    by (simp add: and_then_fst step_success_def map_of_dict_set)
qed

lemma process_text_succeeds:
  assumes "snd (try_block lib text options
             [(''processed_at'', PStr now), (''original_length'', PInt (int (length text)))]) = None"
  shows "succeeded (process_text lib text options now)"
proof -
  let ?t = "try_block lib text options
             [(''processed_at'', PStr now), (''original_length'', PInt (int (length text)))]"
  from assms have p: "process_text lib text options now = fst ?t"
    by (cases ?t) (simp add: process_text_def)
  have "map_of (fst ?t) ''error'' = None"
    by (simp add: try_block_frame)
  with try_block_success [OF assms] p show ?thesis
    by (simp add: succeeded_def)
qed

lemma process_text_fails:
  assumes "snd (try_block lib text options
             [(''processed_at'', PStr now), (''original_length'', PInt (int (length text)))]) = Some e"
  shows "failed_with (process_text lib text options now) e"
proof -
  let ?t = "try_block lib text options
             [(''processed_at'', PStr now), (''original_length'', PInt (int (length text)))]"
  from assms have "process_text lib text options now
      = dict_update (fst ?t) [(''success'', PBool False), (''error'', PStr (str_of_exn e))]"
    by (cases ?t) (simp add: process_text_def)
  then show ?thesis
    by (simp add: failed_with_def dict_update_def map_of_dict_set)
qed

lemma process_text_no_other_key:
  assumes "k \<notin> {''processed_at'', ''original_length'', ''cleaned_text'', ''cleaned_length'',
                 ''sentence_count'', ''word_count'', ''unique_words'', ''avg_sentence_length'',
                 ''readability'', ''entities'', ''keywords'', ''classification'', ''summary'',
                 ''success'', ''error''}"
  shows "map_of (process_text lib text options now) k = None"
proof -
  let ?t = "try_block lib text options
             [(''processed_at'', PStr now), (''original_length'', PInt (int (length text)))]"
  from assms have f: "map_of (fst ?t) k = None"
    by (subst try_block_frame) simp_all
  show ?thesis
  proof (cases "snd ?t")
    case None
    then have "process_text lib text options now = fst ?t"
      by (cases ?t) (simp add: process_text_def)
    with f show ?thesis by simp
  next
    case (Some e)
    then have "process_text lib text options now
      = dict_update (fst ?t) [(''success'', PBool False), (''error'', PStr (str_of_exn e))]"
      by (cases ?t) (simp add: process_text_def)
    with f assms show ?thesis by (simp add: dict_update_def map_of_dict_set)
  qed
qed

lemma try_block_raises:
  "snd (try_block lib text options r) = Some e \<Longrightarrow>
     failed_with (process_text lib text options now) e"
  using process_text_fails [of lib "text" options now e] by (simp add: try_block_snd)

lemma try_block_returns:
  "snd (try_block lib text options r) = None \<Longrightarrow>
     succeeded (process_text lib text options now)"
  using process_text_succeeds [of lib "text" options now] by (simp add: try_block_snd)

lemma empty_text_steps:
  assumes "sent_tokenize lib [] = Inr []" and "word_tokenize lib [] = Inr []"
  shows "extract_sentences lib [] = Inr []"
    and "tokenize_text lib [] = Inr []"
    and "generate_summary lib [] max_length = Inr (PStr [])"
  using assms
  by (simp_all add: extract_sentences_def tokenize_text_def py_lower_def generate_summary_def
        summary_try_def)

lemma frame_after_metrics:
  assumes "k \<notin> {''readability'', ''entities'', ''keywords'', ''classification'', ''summary'',
                 ''success''}"
  shows "map_of (fst (and_then (and_then (and_then (and_then (and_then (and_then out
           (step_readability lib c options))
           (step_entities lib c options))
           (step_keywords lib c options))
           (step_classification lib c options))
           (step_summary lib c options))
           step_success)) k = map_of (fst out) k"
  using assms
  by (intro and_then_frame)
     (simp_all add: step_readability_def step_entities_def step_keywords_def
        step_classification_def step_summary_def step_success_def map_of_dict_set
        split: sum.split)

lemma try_block_metrics:
  assumes "k \<notin> {''readability'', ''entities'', ''keywords'', ''classification'', ''summary'',
                 ''success''}"
  shows "map_of (fst (try_block lib text options r)) k
           = map_of (fst (and_then (step_clean (clean_text lib text) r)
                            (step_metrics lib (clean_text lib text)))) k"
  unfolding try_block_def Let_def by (rule frame_after_metrics [OF assms])

subsection \<open>The claims\<close>

text \<open>
  C9, as amended. The dictionary that \<^verbatim>\<open>process_text\<close> returns never has a key
  lowQualityWarning, whatever the text, the options and the libraries. When the cleaned text
  is empty, the tokenizers find no sentence and no token in the empty text, and the options
  give no list of categories, the processing does not fail: the dictionary reports success
  and no error, the cleaned text is empty, and its length, the number of sentences, of words
  and of unique words and the average sentence length are all 0.
\<close>

theorem process_text_empty:
  "map_of (process_text lib text options now) ''lowQualityWarning'' = None
   \<and> (clean_text lib text = [] \<and> sent_tokenize lib [] = Inr [] \<and> word_tokenize lib [] = Inr []
       \<and> \<not> truthy (dict_get options ''categories'' PNone) \<longrightarrow>
        succeeded (process_text lib text options now)
        \<and> map_of (process_text lib text options now) ''cleaned_text'' = Some (PStr [])
        \<and> map_of (process_text lib text options now) ''cleaned_length'' = Some (PInt 0)
        \<and> map_of (process_text lib text options now) ''sentence_count'' = Some (PInt 0)
        \<and> map_of (process_text lib text options now) ''word_count'' = Some (PInt 0)
        \<and> map_of (process_text lib text options now) ''unique_words'' = Some (PInt 0)
        \<and> map_of (process_text lib text options now) ''avg_sentence_length'' = Some (PInt 0))"
proof -
  let ?r0 = "[(''processed_at'', PStr now), (''original_length'', PInt (int (length text)))]"
  let ?out = "process_text lib text options now"
  have flag: "map_of ?out ''lowQualityWarning'' = None"
    by (rule process_text_no_other_key) simp
  have rest: "succeeded ?out
        \<and> map_of ?out ''cleaned_text'' = Some (PStr [])
        \<and> map_of ?out ''cleaned_length'' = Some (PInt 0)
        \<and> map_of ?out ''sentence_count'' = Some (PInt 0)
        \<and> map_of ?out ''word_count'' = Some (PInt 0)
        \<and> map_of ?out ''unique_words'' = Some (PInt 0)
        \<and> map_of ?out ''avg_sentence_length'' = Some (PInt 0)"
    if c: "clean_text lib text = []" and s: "sent_tokenize lib [] = Inr []"
      and w: "word_tokenize lib [] = Inr []"
      and g: "\<not> truthy (dict_get options ''categories'' PNone)"
  proof -
    note e = empty_text_steps [OF s w]
    have cl: "\<exists>v. classify_text lib [] (dict_get options ''categories'' PNone) = Inr v"
      using g by (simp add: classify_text_def)
    have none: "snd (try_block lib text options ?r0) = None"
      using c e cl by (auto simp add: try_block_snd steps_snd)
    then have ok: "succeeded ?out" by (rule process_text_succeeds)
    from none have p: "?out = fst (try_block lib text options ?r0)"
      by (cases "try_block lib text options ?r0") (simp add: process_text_def)
    have m: "map_of ?out k
               = map_of (fst (and_then (step_clean [] ?r0) (step_metrics lib []))) k"
      if "k \<notin> {''readability'', ''entities'', ''keywords'', ''classification'', ''summary'',
                 ''success''}" for k
      using try_block_metrics [OF that, of lib "text" options ?r0] p c by simp
    have v: "and_then (step_clean [] ?r0) (step_metrics lib [])
           = (dict_update (dict_set ''cleaned_length'' (PInt 0) (dict_set ''cleaned_text'' (PStr []) ?r0))
                [(''sentence_count'', PInt 0), (''word_count'', PInt 0), (''unique_words'', PInt 0),
                 (''avg_sentence_length'', PInt 0)], None)"
      using e by (simp add: and_then_def step_clean_def step_metrics_def)
    show ?thesis
      using ok by (simp add: m v dict_update_def map_of_dict_set)
  qed
  from flag rest show ?thesis by blast
qed

theorem process_text_empty_witness:
  "clean_text on_empty_text [] = []
   \<and> sent_tokenize on_empty_text [] = Inr []
   \<and> word_tokenize on_empty_text [] = Inr []
   \<and> \<not> truthy (dict_get [] ''categories'' PNone)
   \<and> map_of (process_text on_empty_text [] [] ''2024-01-01T00:00:00'') ''success'' = Some (PBool True)
   \<and> map_of (process_text on_empty_text [] [] ''2024-01-01T00:00:00'') ''word_count'' = Some (PInt 0)
   \<and> map_of (process_text on_empty_text [] [] ''2024-01-01T00:00:00'') ''lowQualityWarning'' = None"
proof -
  have h: "clean_text on_empty_text [] = []" "sent_tokenize on_empty_text [] = Inr []"
    "word_tokenize on_empty_text [] = Inr []" "\<not> truthy (dict_get [] ''categories'' PNone)"
    by (simp_all add: clean_text_def on_empty_text_def py_strip_def dict_get_def)
  with process_text_empty [of on_empty_text "[]" "[]" "''2024-01-01T00:00:00''"]
  show ?thesis by (simp add: succeeded_def)
qed

text \<open>
  C9 as stated fails: for the empty text, with no options, the dictionary returned is the one
  below. It reports success, and it records no lowQualityWarning.
\<close>

theorem low_quality_warning_counterexample:
  "process_text on_empty_text [] [] ''2024-01-01T00:00:00''
     = [(''processed_at'', PStr ''2024-01-01T00:00:00''), (''original_length'', PInt 0),
        (''cleaned_text'', PStr []), (''cleaned_length'', PInt 0), (''sentence_count'', PInt 0),
        (''word_count'', PInt 0), (''unique_words'', PInt 0), (''avg_sentence_length'', PInt 0),
        (''readability'',
           PDict [(''sentence_count'', PInt 0), (''word_count'', PInt 0),
                  (''avg_words_per_sentence'', PInt 0), (''avg_sentence_length'', PInt 0)]),
        (''entities'', PList []), (''keywords'', PList []),
        (''classification'', classification_of on_empty_text [] default_categories),
        (''summary'', PStr []), (''success'', PBool True)]
   \<and> map_of (process_text on_empty_text [] [] ''2024-01-01T00:00:00'') ''lowQualityWarning'' = None"
  by (simp add: process_text_def try_block_def and_then_def step_clean_def step_metrics_def
        step_readability_def step_entities_def step_keywords_def step_classification_def
        step_summary_def step_success_def clean_text_def extract_sentences_def tokenize_text_def
        calculate_readability_def extract_entities_def extract_keywords_def classify_text_def
        generate_summary_def summary_try_def py_strip_def py_lower_def dict_get_def dict_set_def
        dict_update_def on_empty_text_def Let_def)

text \<open>
  C10. \<^verbatim>\<open>process_text\<close> returns a dictionary for every text, every dictionary of options
  and every behaviour of the libraries, and the dictionary always has the key success: either
  success is True and there is no error, or success is False and error holds the text of an
  exception. A step of the \<^verbatim>\<open>try\<close> block raises when an exception reaches the block:
  from the extraction of the sentences, from the tokenization, from the classification when
  it is enabled, or from the summary when it is enabled. In each of these cases the
  dictionary has success False with the text of that exception as error, and when no step
  raises it has success True. (An exception that \<^verbatim>\<open>calculate_readability\<close>,
  \<^verbatim>\<open>extract_entities\<close>, \<^verbatim>\<open>extract_keywords\<close> or the body of
  \<^verbatim>\<open>generate_summary\<close> catches itself does not reach the block.)
\<close>

theorem process_text_total:
  "(succeeded (process_text lib text options now)
      \<or> (\<exists>e. failed_with (process_text lib text options now) e))
   \<and> (\<forall>e. extract_sentences lib (clean_text lib text) = Inl e \<longrightarrow>
          failed_with (process_text lib text options now) e)
   \<and> (\<forall>e ss. extract_sentences lib (clean_text lib text) = Inr ss
          \<and> tokenize_text lib (clean_text lib text) = Inl e \<longrightarrow>
          failed_with (process_text lib text options now) e)
   \<and> (\<forall>e ss ts. extract_sentences lib (clean_text lib text) = Inr ss
          \<and> tokenize_text lib (clean_text lib text) = Inr ts
          \<and> truthy (dict_get options ''classify_text'' (PBool True))
          \<and> classify_text lib (clean_text lib text) (dict_get options ''categories'' PNone) = Inl e \<longrightarrow>
          failed_with (process_text lib text options now) e)
   \<and> (\<forall>e ss ts. extract_sentences lib (clean_text lib text) = Inr ss
          \<and> tokenize_text lib (clean_text lib text) = Inr ts
          \<and> (\<not> truthy (dict_get options ''classify_text'' (PBool True))
               \<or> (\<exists>v. classify_text lib (clean_text lib text) (dict_get options ''categories'' PNone)
                         = Inr v))
          \<and> truthy (dict_get options ''generate_summary'' (PBool True))
          \<and> generate_summary lib (clean_text lib text)
               (dict_get options ''summary_max_length'' (PInt 500)) = Inl e \<longrightarrow>
          failed_with (process_text lib text options now) e)
   \<and> ((\<exists>ss. extract_sentences lib (clean_text lib text) = Inr ss)
        \<and> (\<exists>ts. tokenize_text lib (clean_text lib text) = Inr ts)
        \<and> (\<not> truthy (dict_get options ''classify_text'' (PBool True))
             \<or> (\<exists>v. classify_text lib (clean_text lib text) (dict_get options ''categories'' PNone)
                       = Inr v))
        \<and> (\<not> truthy (dict_get options ''generate_summary'' (PBool True))
             \<or> (\<exists>v. generate_summary lib (clean_text lib text)
                       (dict_get options ''summary_max_length'' (PInt 500)) = Inr v)) \<longrightarrow>
        succeeded (process_text lib text options now))"
proof -
  let ?r0 = "[(''processed_at'', PStr now), (''original_length'', PInt (int (length text)))]"
  let ?out = "process_text lib text options now"
  have total: "succeeded ?out \<or> (\<exists>e. failed_with ?out e)"
  proof (cases "snd (try_block lib text options ?r0)")
    case None
    then show ?thesis using try_block_returns by blast
  next
    case (Some e)
    then show ?thesis using try_block_raises by blast
  qed
  have a: "\<forall>e. extract_sentences lib (clean_text lib text) = Inl e \<longrightarrow> failed_with ?out e"
    by (intro allI impI try_block_raises [where r = ?r0]) (simp add: try_block_snd steps_snd)
  have b: "\<forall>e ss. extract_sentences lib (clean_text lib text) = Inr ss
          \<and> tokenize_text lib (clean_text lib text) = Inl e \<longrightarrow> failed_with ?out e"
    by (intro allI impI try_block_raises [where r = ?r0]) (auto simp add: try_block_snd steps_snd)
  have c: "\<forall>e ss ts. extract_sentences lib (clean_text lib text) = Inr ss
          \<and> tokenize_text lib (clean_text lib text) = Inr ts
          \<and> truthy (dict_get options ''classify_text'' (PBool True))
          \<and> classify_text lib (clean_text lib text) (dict_get options ''categories'' PNone) = Inl e \<longrightarrow>
          failed_with ?out e"
    by (intro allI impI try_block_raises [where r = ?r0]) (auto simp add: try_block_snd steps_snd)
  have d: "\<forall>e ss ts. extract_sentences lib (clean_text lib text) = Inr ss
          \<and> tokenize_text lib (clean_text lib text) = Inr ts
          \<and> (\<not> truthy (dict_get options ''classify_text'' (PBool True))
               \<or> (\<exists>v. classify_text lib (clean_text lib text) (dict_get options ''categories'' PNone)
                         = Inr v))
          \<and> truthy (dict_get options ''generate_summary'' (PBool True))
          \<and> generate_summary lib (clean_text lib text)
               (dict_get options ''summary_max_length'' (PInt 500)) = Inl e \<longrightarrow>
          failed_with ?out e"
    by (intro allI impI try_block_raises [where r = ?r0]) (auto simp add: try_block_snd steps_snd)
  have e: "(\<exists>ss. extract_sentences lib (clean_text lib text) = Inr ss)
        \<and> (\<exists>ts. tokenize_text lib (clean_text lib text) = Inr ts)
        \<and> (\<not> truthy (dict_get options ''classify_text'' (PBool True))
             \<or> (\<exists>v. classify_text lib (clean_text lib text) (dict_get options ''categories'' PNone)
                       = Inr v))
        \<and> (\<not> truthy (dict_get options ''generate_summary'' (PBool True))
             \<or> (\<exists>v. generate_summary lib (clean_text lib text)
                       (dict_get options ''summary_max_length'' (PInt 500)) = Inr v)) \<longrightarrow>
        succeeded ?out"
    by (intro impI try_block_returns [where r = ?r0]) (auto simp add: try_block_snd steps_snd)
  from total a b c d e show ?thesis by blast
qed

theorem process_text_total_witness:
  "extract_sentences tokenizer_missing (clean_text tokenizer_missing ''Hello'')
     = Inl (Exn ''Resource punkt not found.'')
   \<and> map_of (process_text tokenizer_missing ''Hello'' [] ''2024-01-01T00:00:00'') ''success''
       = Some (PBool False)
   \<and> map_of (process_text tokenizer_missing ''Hello'' [] ''2024-01-01T00:00:00'') ''error''
       = Some (PStr ''Resource punkt not found.'')"
proof -
  have r: "extract_sentences tokenizer_missing (clean_text tokenizer_missing ''Hello'')
     = Inl (Exn ''Resource punkt not found.'')"
    by (simp add: extract_sentences_def tokenizer_missing_def)
  with process_text_total [of tokenizer_missing "''Hello''" "[]" "''2024-01-01T00:00:00''"]
  have "failed_with (process_text tokenizer_missing ''Hello'' [] ''2024-01-01T00:00:00'')
          (Exn ''Resource punkt not found.'')"
    by blast
  with r show ?thesis by (simp add: failed_with_def)
qed

end
